theory Spec2Isabelle
  imports Main "HOL-Library.Sublist"
begin

section \<open>Python text\<close>

text \<open>
  A Python \<open>str\<close> is a sequence of Unicode code points: \<open>len\<close> and slicing count
  code points.  A text is therefore a list of code points, and an ASCII literal
  of the source is written \<open>S ''...''\<close>.
\<close>

type_synonym pystr = "nat list"

definition S :: "string \<Rightarrow> pystr" where
  "S s = map of_char s"

definition nl :: pystr where
  "nl = [10]"

text \<open>The pictographs of the source's messages, by code point.\<close>

definition check_mark :: pystr where
  "check_mark = [0x2705]"

definition info_mark :: pystr where
  "info_mark = [0x2139, 0xFE0F]"

definition warning_mark :: pystr where
  "warning_mark = [0x26A0, 0xFE0F]"

definition cross_mark :: pystr where
  "cross_mark = [0x274C]"

text \<open>\<open>str(n)\<close> of an integer: its decimal digits, with a minus sign when negative.\<close>

fun digits :: "nat \<Rightarrow> pystr" where
  "digits n = (if n < 10 then [48 + n] else digits (n div 10) @ [48 + n mod 10])"

declare digits.simps [simp del]

definition str_int :: "int \<Rightarrow> pystr" where
  "str_int i = (if i < 0 then 45 # digits (nat (- i)) else digits (nat i))"

text \<open>\<open>sep.join(xs)\<close>.\<close>

fun join :: "pystr \<Rightarrow> pystr list \<Rightarrow> pystr" where
  "join sep [] = []"
| "join sep [x] = x"
| "join sep (x # y # ys) = x @ sep @ join sep (y # ys)"

text \<open>
  \<open>str.isspace\<close> on one code point, which is what \<open>str.strip()\<close> removes: the
  code points CPython lists as whitespace.
\<close>

definition isspace :: "nat \<Rightarrow> bool" where
  "isspace c \<longleftrightarrow>
     (0x09 \<le> c \<and> c \<le> 0x0D) \<or> (0x1C \<le> c \<and> c \<le> 0x20) \<or> c = 0x85 \<or> c = 0xA0 \<or>
     c = 0x1680 \<or> (0x2000 \<le> c \<and> c \<le> 0x200A) \<or> c = 0x2028 \<or> c = 0x2029 \<or>
     c = 0x202F \<or> c = 0x205F \<or> c = 0x3000"

definition strip :: "pystr \<Rightarrow> pystr" where
  "strip s = rev (dropWhile isspace (rev (dropWhile isspace s)))"

text \<open>\<open>s.replace("Z", "+00:00")\<close>: every \<open>Z\<close> becomes \<open>+00:00\<close>.\<close>

definition replace_Z :: "pystr \<Rightarrow> pystr" where
  "replace_Z s = concat (map (\<lambda>c. if c = 90 then S ''+00:00'' else [c]) s)"

section \<open>Exceptions, dates and the library's functions\<close>

text \<open>
  The two exception classes the handlers tell apart: \<open>GithubException\<close>, with its
  HTTP status and its \<open>str(e)\<close>, and any other \<open>Exception\<close> with its \<open>str(e)\<close>.
\<close>

datatype exn = GithubException int pystr | Exception pystr

text \<open>
  A \<open>datetime\<close> is naive or timezone-aware; the integer is its instant in
  microseconds.  \<open>a < b\<close> compares two naive or two aware values, and raises
  \<open>TypeError\<close> when one is naive and the other aware.
\<close>

datatype datetime = Naive int | Aware int

definition naive_aware_message :: pystr where
  "naive_aware_message = S ''can'' @ [39] @ S ''t compare offset-naive and offset-aware datetimes''"

fun dt_less :: "datetime \<Rightarrow> datetime \<Rightarrow> exn + bool" where
  "dt_less (Naive a) (Naive b) = Inr (a < b)"
| "dt_less (Aware a) (Aware b) = Inr (a < b)"
| "dt_less _ _ = Inl (Exception naive_aware_message)"

text \<open>
  Functions of Python's library that the tools call and whose tables are not part of
  this repository; they are parameters of the model.  \<open>fromisoformat\<close> is
  \<open>datetime.fromisoformat\<close>, \<open>None\<close> where it raises \<open>ValueError\<close>; \<open>isoformat\<close> is
  \<open>datetime.isoformat\<close>; \<open>repr_list\<close> is how an f-string prints a list of \<open>str\<close>.
\<close>

record py =
  fromisoformat :: "pystr \<Rightarrow> datetime option"
  isoformat :: "datetime \<Rightarrow> pystr"
  repr_list :: "pystr list \<Rightarrow> pystr"

section \<open>The remote tracker\<close>

text \<open>
  An issue as the tracker holds it.  \<open>label_names\<close> is
  \<open>[label.name for label in issue.labels]\<close>, \<open>assignee_logins\<close> is
  \<open>[assignee.login for assignee in issue.assignees]\<close>, \<open>pull_request\<close> says whether
  \<open>issue.pull_request\<close> is set, \<open>comments\<close> is the issue's comment stream.
\<close>

record issue =
  number :: int
  title :: pystr
  body :: "pystr option"
  label_names :: "pystr list"
  assignee_logins :: "pystr list"
  created_at :: datetime
  html_url :: pystr
  state :: pystr
  pull_request :: bool
  comments :: "pystr list"

record repo =
  issues :: "issue list"
  label_catalog :: "pystr list"
  assignable :: "pystr list"

text \<open>The requests the tools send.\<close>

datatype call =
    GetRepo pystr
  | GetIssues pystr
  | GetIssue pystr int
  | GetLabels pystr
  | AddToLabels pystr int "pystr list"
  | AddToAssignees pystr int "pystr list"
  | CreateComment pystr int pystr

text \<open>
  The tracker: its repositories by name, the requests it refuses for this client
  whatever its data (bad credentials, missing permission, transport failure) while one
  tool runs, and the log of every request sent to it, refused ones included.
\<close>

record tracker =
  repos :: "pystr \<rightharpoonup> repo"
  faults :: "call \<Rightarrow> exn option"
  log :: "call list"

type_synonym 'a remote = "tracker \<Rightarrow> (exn + 'a) \<times> tracker"

definition returns :: "'a \<Rightarrow> 'a remote" where
  "returns x tr = (Inr x, tr)"

definition raises :: "exn \<Rightarrow> 'a remote" where
  "raises e tr = (Inl e, tr)"

text \<open>Sequencing: an exception of the first part skips the rest.\<close>

definition and_then :: "'a remote \<Rightarrow> ('a \<Rightarrow> 'b remote) \<Rightarrow> 'b remote" where
  "and_then m f tr = (case m tr of (Inl e, tr') \<Rightarrow> (Inl e, tr') | (Inr x, tr') \<Rightarrow> f x tr')"

text \<open>Sending a request logs it; a refused request raises the tracker's exception.\<close>

definition request :: "call \<Rightarrow> unit remote" where
  "request c tr =
     (case faults tr c of
        Some e \<Rightarrow> (Inl e, tr\<lparr>log := log tr @ [c]\<rparr>)
      | None \<Rightarrow> (Inr (), tr\<lparr>log := log tr @ [c]\<rparr>))"

definition not_found :: exn where
  "not_found = GithubException 404 (S ''404 Not Found'')"

definition unprocessable :: exn where
  "unprocessable = GithubException 422 (S ''422 Validation Failed'')"

definition lookup_issue :: "tracker \<Rightarrow> pystr \<Rightarrow> int \<Rightarrow> issue option" where
  "lookup_issue tr repository n =
     (case repos tr repository of
        None \<Rightarrow> None
      | Some r \<Rightarrow> find (\<lambda>i. number i = n) (issues r))"

definition catalog_of :: "tracker \<Rightarrow> pystr \<Rightarrow> pystr list" where
  "catalog_of tr repository =
     (case repos tr repository of None \<Rightarrow> [] | Some r \<Rightarrow> label_catalog r)"

definition assignable_of :: "tracker \<Rightarrow> pystr \<Rightarrow> pystr list" where
  "assignable_of tr repository =
     (case repos tr repository of None \<Rightarrow> [] | Some r \<Rightarrow> assignable r)"

definition update_issue :: "pystr \<Rightarrow> int \<Rightarrow> (issue \<Rightarrow> issue) \<Rightarrow> tracker \<Rightarrow> tracker" where
  "update_issue repository n f tr =
     (case repos tr repository of
        None \<Rightarrow> tr
      | Some r \<Rightarrow>
          tr\<lparr>repos := (repos tr)(repository \<mapsto>
                r\<lparr>issues := map (\<lambda>i. if number i = n then f i else i) (issues r)\<rparr>)\<rparr>)"

text \<open>
  Modelled from the spec: the tracker's API (PyGithub and the service behind it) is an
  external collaborator, missing from the source.  Section 6 of the spec gives its
  interface: reads of a repository, of its open issues sorted by creation time
  descending, of one issue and of the label catalog; writes that add labels or
  assignees to an issue as a set union, or append a comment; and the errors not-found
  (repository or issue absent) and unprocessable (invalid label or assignee).
\<close>

definition get_repo :: "pystr \<Rightarrow> pystr remote" where
  "get_repo repository =
     and_then (request (GetRepo repository)) (\<lambda>_ tr.
       case repos tr repository of
         None \<Rightarrow> raises not_found tr
       | Some r \<Rightarrow> returns repository tr)"

definition get_issue :: "pystr \<Rightarrow> int \<Rightarrow> issue remote" where
  "get_issue repository n =
     and_then (request (GetIssue repository n)) (\<lambda>_ tr.
       case lookup_issue tr repository n of
         None \<Rightarrow> raises not_found tr
       | Some i \<Rightarrow> returns i tr)"

definition instant :: "datetime \<Rightarrow> int" where
  "instant d = (case d of Naive t \<Rightarrow> t | Aware t \<Rightarrow> t)"

definition open_issues_desc :: "repo \<Rightarrow> issue list" where
  "open_issues_desc r =
     sort_key (\<lambda>i. - instant (created_at i)) (filter (\<lambda>i. state i = S ''open'') (issues r))"

definition get_issues :: "pystr \<Rightarrow> issue list remote" where
  "get_issues repository =
     and_then (request (GetIssues repository)) (\<lambda>_ tr.
       case repos tr repository of
         None \<Rightarrow> raises not_found tr
       | Some r \<Rightarrow> returns (open_issues_desc r) tr)"

definition get_labels :: "pystr \<Rightarrow> pystr list remote" where
  "get_labels repository =
     and_then (request (GetLabels repository)) (\<lambda>_ tr.
       case repos tr repository of
         None \<Rightarrow> raises not_found tr
       | Some r \<Rightarrow> returns (label_catalog r) tr)"

definition union_list :: "pystr list \<Rightarrow> pystr list \<Rightarrow> pystr list" where
  "union_list old new = old @ filter (\<lambda>x. x \<notin> set old) (remdups new)"

text \<open>
  \<open>issue.add_to_labels\<close> returns nothing and leaves the fetched object as it is: only
  the tracker's issue changes.  \<open>issue.add_to_assignees\<close> refreshes the object from the
  tracker's answer; the model returns the refreshed object, which the source reads
  next as \<open>issue.assignees\<close>.
\<close>

definition add_to_labels :: "pystr \<Rightarrow> issue \<Rightarrow> pystr list \<Rightarrow> unit remote" where
  "add_to_labels repository issue names =
     and_then (request (AddToLabels repository (number issue) names)) (\<lambda>_ tr.
       case lookup_issue tr repository (number issue) of
         None \<Rightarrow> raises not_found tr
       | Some i \<Rightarrow>
           if \<not> set names \<subseteq> set (catalog_of tr repository)
           then raises unprocessable tr
           else returns ()
                  (update_issue repository (number issue)
                     (\<lambda>i. i\<lparr>label_names := union_list (label_names i) names\<rparr>) tr))"

definition add_to_assignees :: "pystr \<Rightarrow> issue \<Rightarrow> pystr list \<Rightarrow> issue remote" where
  "add_to_assignees repository issue logins =
     and_then (request (AddToAssignees repository (number issue) logins)) (\<lambda>_ tr.
       case lookup_issue tr repository (number issue) of
         None \<Rightarrow> raises not_found tr
       | Some i \<Rightarrow>
           if \<not> set logins \<subseteq> set (assignable_of tr repository)
           then raises unprocessable tr
           else returns (i\<lparr>assignee_logins := union_list (assignee_logins i) logins\<rparr>)
                  (update_issue repository (number issue)
                     (\<lambda>i. i\<lparr>assignee_logins := union_list (assignee_logins i) logins\<rparr>) tr))"

definition create_comment :: "pystr \<Rightarrow> issue \<Rightarrow> pystr \<Rightarrow> unit remote" where
  "create_comment repository issue text =
     and_then (request (CreateComment repository (number issue) text)) (\<lambda>_ tr.
       case lookup_issue tr repository (number issue) of
         None \<Rightarrow> raises not_found tr
       | Some i \<Rightarrow>
           returns () (update_issue repository (number issue)
                         (\<lambda>i. i\<lparr>comments := comments i @ [text]\<rparr>) tr))"

section \<open>The tools\<close>

text \<open>
  Every tool returns one text.  The model tags it with the kind of outcome the return
  statement stands for: a performed change or listing, a no-op, or a failure.
\<close>

datatype outcome = Success pystr | NoOp pystr | Failure pystr

fun text_of :: "outcome \<Rightarrow> pystr" where
  "text_of (Success t) = t"
| "text_of (NoOp t) = t"
| "text_of (Failure t) = t"

text \<open>\<open>os.getenv("GITHUB_TOKEN")\<close> and the test \<open>not github_token\<close>.\<close>

definition os_getenv :: "(pystr \<rightharpoonup> pystr) \<Rightarrow> pystr \<Rightarrow> pystr option" where
  "os_getenv environ name = environ name"

definition no_token :: "pystr option \<Rightarrow> bool" where
  "no_token github_token \<longleftrightarrow> (case github_token of None \<Rightarrow> True | Some t \<Rightarrow> t = [])"

definition token_not_set :: pystr where
  "token_not_set = S ''Error: GITHUB_TOKEN environment variable is not set.''"

definition issue_not_found :: "int \<Rightarrow> pystr \<Rightarrow> pystr" where
  "issue_not_found issue_number repository =
     S ''Error: Issue #'' @ str_int issue_number @ S '' not found in repository '' @ repository @ S ''.''"

definition api_error :: "pystr \<Rightarrow> pystr" where
  "api_error msg = S ''GitHub API Error: '' @ msg"

subsection \<open>\<open>CommentOnIssue._run\<close>\<close>

definition comment_preview :: "pystr \<Rightarrow> pystr" where
  "comment_preview comment =
     (if length comment > 100 then take 100 comment @ S ''...'' else comment)"

definition comment_added :: "int \<Rightarrow> pystr \<Rightarrow> pystr" where
  "comment_added issue_number comment =
     check_mark @ S '' Successfully added comment to issue #'' @ str_int issue_number @ S ''.'' @ nl @
     S ''Comment preview: '' @ comment_preview comment"

definition CommentOnIssue_try :: "pystr \<Rightarrow> int \<Rightarrow> pystr \<Rightarrow> outcome remote" where
  "CommentOnIssue_try repository issue_number comment =
     and_then (get_repo repository) (\<lambda>repo.
     and_then (get_issue repo issue_number) (\<lambda>issue.
     and_then (create_comment repo issue comment) (\<lambda>_.
     returns (Success (comment_added issue_number comment)))))"

fun CommentOnIssue_except :: "int \<Rightarrow> pystr \<Rightarrow> exn \<Rightarrow> outcome" where
  "CommentOnIssue_except issue_number repository (GithubException status msg) =
     (if status = 404 then Failure (issue_not_found issue_number repository)
      else if status = 403 then
        Failure (S ''Error: Permission denied. Check that GITHUB_TOKEN has write access to issues.'')
      else Failure (api_error msg))"
| "CommentOnIssue_except issue_number repository (Exception msg) =
     Failure (S ''Error adding comment: '' @ msg)"

definition CommentOnIssue_run ::
  "(pystr \<rightharpoonup> pystr) \<Rightarrow> tracker \<Rightarrow> pystr \<Rightarrow> int \<Rightarrow> pystr \<Rightarrow> outcome \<times> tracker" where
  "CommentOnIssue_run environ tr repository issue_number comment =
     (if no_token (os_getenv environ (S ''GITHUB_TOKEN'')) then (Failure token_not_set, tr)
      else if comment = [] \<or> strip comment = [] then
        (Failure (S ''Error: Comment cannot be empty.''), tr)
      else
        case CommentOnIssue_try repository issue_number comment tr of
          (Inl e, tr') \<Rightarrow> (CommentOnIssue_except issue_number repository e, tr')
        | (Inr out, tr') \<Rightarrow> (out, tr'))"

subsection \<open>\<open>AddLabelToIssue._run\<close>\<close>

definition labels_do_not_exist :: "py \<Rightarrow> pystr list \<Rightarrow> pystr list \<Rightarrow> pystr" where
  "labels_do_not_exist py invalid_labels repo_labels =
     S ''Error: Labels '' @ repr_list py invalid_labels @
     S '' do not exist in the repository. Available labels: '' @
     repr_list py (take 10 repo_labels) @ S ''...''"

definition labels_added :: "py \<Rightarrow> pystr list \<Rightarrow> int \<Rightarrow> pystr list \<Rightarrow> pystr" where
  "labels_added py labels_to_add issue_number updated_labels =
     check_mark @ S '' Successfully added labels '' @ repr_list py labels_to_add @
     S '' to issue #'' @ str_int issue_number @ S ''.'' @ nl @
     S ''Current labels: '' @ repr_list py updated_labels"

definition labels_already_exist :: "py \<Rightarrow> int \<Rightarrow> pystr list \<Rightarrow> pystr" where
  "labels_already_exist py issue_number existing_labels =
     info_mark @ S '' All labels already exist on issue #'' @ str_int issue_number @ S ''.'' @ nl @
     S ''Current labels: '' @ repr_list py existing_labels"

definition AddLabelToIssue_try :: "py \<Rightarrow> pystr \<Rightarrow> int \<Rightarrow> pystr list \<Rightarrow> outcome remote" where
  "AddLabelToIssue_try py repository issue_number labels =
     and_then (get_repo repository) (\<lambda>repo.
     and_then (get_issue repo issue_number) (\<lambda>issue.
       let existing_labels = label_names issue;
           labels_to_add = filter (\<lambda>label. label \<notin> set existing_labels) labels
       in if labels_to_add \<noteq> [] then
            and_then (get_labels repo) (\<lambda>repo_labels.
              let invalid_labels = filter (\<lambda>label. label \<notin> set repo_labels) labels_to_add
              in if invalid_labels \<noteq> [] then
                   returns (Failure (labels_do_not_exist py invalid_labels repo_labels))
                 else
                   and_then (add_to_labels repo issue labels_to_add) (\<lambda>_.
                   let updated_labels = label_names issue
                   in returns (Success (labels_added py labels_to_add issue_number
                                          updated_labels))))
          else returns (NoOp (labels_already_exist py issue_number existing_labels))))"

fun AddLabelToIssue_except :: "int \<Rightarrow> pystr \<Rightarrow> exn \<Rightarrow> outcome" where
  "AddLabelToIssue_except issue_number repository (GithubException status msg) =
     (if status = 404 then Failure (issue_not_found issue_number repository)
      else if status = 422 then
        Failure (S ''Error: Invalid label name(s). Please check that labels exist in the repository.'')
      else Failure (api_error msg))"
| "AddLabelToIssue_except issue_number repository (Exception msg) =
     Failure (S ''Error adding labels: '' @ msg)"

definition AddLabelToIssue_run ::
  "py \<Rightarrow> (pystr \<rightharpoonup> pystr) \<Rightarrow> tracker \<Rightarrow> pystr \<Rightarrow> int \<Rightarrow> pystr list \<Rightarrow> outcome \<times> tracker" where
  "AddLabelToIssue_run py environ tr repository issue_number labels =
     (if no_token (os_getenv environ (S ''GITHUB_TOKEN'')) then (Failure token_not_set, tr)
      else
        case AddLabelToIssue_try py repository issue_number labels tr of
          (Inl e, tr') \<Rightarrow> (AddLabelToIssue_except issue_number repository e, tr')
        | (Inr out, tr') \<Rightarrow> (out, tr'))"

subsection \<open>\<open>AssignIssue._run\<close>\<close>

definition assignees_rejected :: "py \<Rightarrow> pystr list \<Rightarrow> pystr" where
  "assignees_rejected py assignees_to_add =
     S ''Error: One or more assignees ('' @ repr_list py assignees_to_add @
     S '') may not have access to the repository or do not exist.''"

definition assignees_added :: "py \<Rightarrow> pystr list \<Rightarrow> int \<Rightarrow> pystr list \<Rightarrow> pystr" where
  "assignees_added py assignees_to_add issue_number updated_assignees =
     check_mark @ S '' Successfully assigned '' @ repr_list py assignees_to_add @
     S '' to issue #'' @ str_int issue_number @ S ''.'' @ nl @
     S ''Current assignees: '' @ repr_list py updated_assignees"

definition already_assigned :: "py \<Rightarrow> int \<Rightarrow> pystr list \<Rightarrow> pystr" where
  "already_assigned py issue_number existing_assignees =
     info_mark @ S '' All assignees already assigned to issue #'' @ str_int issue_number @ S ''.'' @ nl @
     S ''Current assignees: '' @ repr_list py existing_assignees"

text \<open>\<open>try: m except e: h e\<close>, for the inner \<open>try\<close> of \<open>AssignIssue._run\<close>.\<close>

definition catch :: "'a remote \<Rightarrow> (exn \<Rightarrow> 'a remote) \<Rightarrow> 'a remote" where
  "catch m h tr = (case m tr of (Inl e, tr') \<Rightarrow> h e tr' | (Inr x, tr') \<Rightarrow> (Inr x, tr'))"

fun AssignIssue_inner_except :: "py \<Rightarrow> pystr list \<Rightarrow> exn \<Rightarrow> outcome remote" where
  "AssignIssue_inner_except py assignees_to_add (GithubException status msg) =
     (if status = 422 then returns (Failure (assignees_rejected py assignees_to_add))
      else raises (GithubException status msg))"
| "AssignIssue_inner_except py assignees_to_add (Exception msg) = raises (Exception msg)"

definition AssignIssue_try :: "py \<Rightarrow> pystr \<Rightarrow> int \<Rightarrow> pystr list \<Rightarrow> outcome remote" where
  "AssignIssue_try py repository issue_number assignees =
     and_then (get_repo repository) (\<lambda>repo.
     and_then (get_issue repo issue_number) (\<lambda>issue.
       let existing_assignees = assignee_logins issue;
           assignees_to_add = filter (\<lambda>assignee. assignee \<notin> set existing_assignees) assignees
       in if assignees_to_add \<noteq> [] then
            catch
              (and_then (add_to_assignees repo issue assignees_to_add) (\<lambda>issue.
               returns (Success (assignees_added py assignees_to_add issue_number
                                   (assignee_logins issue)))))
              (AssignIssue_inner_except py assignees_to_add)
          else returns (NoOp (already_assigned py issue_number existing_assignees))))"

fun AssignIssue_except :: "int \<Rightarrow> pystr \<Rightarrow> exn \<Rightarrow> outcome" where
  "AssignIssue_except issue_number repository (GithubException status msg) =
     (if status = 404 then Failure (issue_not_found issue_number repository)
      else Failure (api_error msg))"
| "AssignIssue_except issue_number repository (Exception msg) =
     Failure (S ''Error assigning issue: '' @ msg)"

definition AssignIssue_run ::
  "py \<Rightarrow> (pystr \<rightharpoonup> pystr) \<Rightarrow> tracker \<Rightarrow> pystr \<Rightarrow> int \<Rightarrow> pystr list \<Rightarrow> outcome \<times> tracker" where
  "AssignIssue_run py environ tr repository issue_number assignees =
     (if no_token (os_getenv environ (S ''GITHUB_TOKEN'')) then (Failure token_not_set, tr)
      else
        case AssignIssue_try py repository issue_number assignees tr of
          (Inl e, tr') \<Rightarrow> (AssignIssue_except issue_number repository e, tr')
        | (Inr out, tr') \<Rightarrow> (out, tr'))"

subsection \<open>\<open>GetNewIssues._run\<close>\<close>

text \<open>The dictionary \<open>issue_data\<close>, one field per key.\<close>

record issue_data =
  item_number :: int
  item_title :: pystr
  item_body :: pystr
  item_labels :: "pystr list"
  item_assignees :: "pystr list"
  item_created_at :: pystr
  item_url :: pystr
  item_state :: pystr

definition issue_data_of :: "py \<Rightarrow> issue \<Rightarrow> issue_data" where
  "issue_data_of py issue =
     \<lparr>item_number = number issue,
      item_title = title issue,
      item_body = (case body issue of None \<Rightarrow> [] | Some b \<Rightarrow> b),
      item_labels = label_names issue,
      item_assignees = assignee_logins issue,
      item_created_at = isoformat py (created_at issue),
      item_url = html_url issue,
      item_state = state issue\<rparr>"

text \<open>
  The loop over \<open>issues[:20]\<close>, with \<open>result\<close> as its accumulator.  A \<open>since\<close> that
  does not parse raises \<open>ValueError\<close>, which the loop swallows; comparing a naive with
  an aware datetime raises \<open>TypeError\<close>, which leaves the loop.
\<close>

fun issue_loop :: "py \<Rightarrow> pystr \<Rightarrow> issue list \<Rightarrow> issue_data list \<Rightarrow> exn + issue_data list" where
  "issue_loop py since [] result = Inr result"
| "issue_loop py since (issue # rest) result =
     (if pull_request issue then issue_loop py since rest result
      else if since \<noteq> [] then
        (case fromisoformat py (replace_Z since) of
           None \<Rightarrow> issue_loop py since rest (result @ [issue_data_of py issue])
         | Some since_dt \<Rightarrow>
             (case dt_less (created_at issue) since_dt of
                Inl e \<Rightarrow> Inl e
              | Inr before \<Rightarrow>
                  if before then issue_loop py since rest result
                  else issue_loop py since rest (result @ [issue_data_of py issue])))
      else issue_loop py since rest (result @ [issue_data_of py issue]))"

definition GetNewIssues_try :: "py \<Rightarrow> pystr \<Rightarrow> pystr \<Rightarrow> issue_data list remote" where
  "GetNewIssues_try py repository since =
     and_then (get_repo repository) (\<lambda>repo.
     and_then (get_issues repo) (\<lambda>issues tr.
       (issue_loop py since (take 20 issues) [], tr)))"

definition needs_processing :: "issue_data list \<Rightarrow> issue_data list" where
  "needs_processing result =
     filter (\<lambda>item. item_labels item = [] \<or> item_assignees item = []) result"

definition format_item :: "issue_data \<Rightarrow> pystr" where
  "format_item item =
     S ''## Issue #'' @ str_int (item_number item) @ S '': '' @ item_title item @ nl @
     S ''**Body:** '' @ take 300 (item_body item) @
       (if length (item_body item) > 300 then S ''...'' else []) @ nl @
     S ''**Labels:** '' @
       (if item_labels item \<noteq> [] then join (S '', '') (item_labels item)
        else cross_mark @ S '' None'') @ nl @
     S ''**Assignees:** '' @
       (if item_assignees item \<noteq> [] then join (S '', '') (item_assignees item)
        else cross_mark @ S '' None'') @ nl @
     S ''**Created:** '' @ item_created_at item @ nl @
     S ''**URL:** '' @ item_url item"

definition found_issues :: "issue_data list \<Rightarrow> pystr" where
  "found_issues result =
     S ''Found '' @ str_int (int (length result)) @ S '' open issues.'' @ nl @
     (if needs_processing result \<noteq> [] then
        warning_mark @ S '' '' @ str_int (int (length (needs_processing result))) @
        S '' issues need processing (missing labels or assignees).'' @ nl @ nl
      else []) @
     join (nl @ nl) (map format_item result)"

fun GetNewIssues_except :: "exn \<Rightarrow> outcome" where
  "GetNewIssues_except (GithubException status msg) = Failure (api_error msg)"
| "GetNewIssues_except (Exception msg) = Failure (S ''Error fetching issues: '' @ msg)"

definition GetNewIssues_run ::
  "py \<Rightarrow> (pystr \<rightharpoonup> pystr) \<Rightarrow> tracker \<Rightarrow> pystr \<Rightarrow> pystr \<Rightarrow> outcome \<times> tracker" where
  "GetNewIssues_run py environ tr repository since =
     (if no_token (os_getenv environ (S ''GITHUB_TOKEN'')) then (Failure token_not_set, tr)
      else
        case GetNewIssues_try py repository since tr of
          (Inl e, tr') \<Rightarrow> (GetNewIssues_except e, tr')
        | (Inr result, tr') \<Rightarrow>
            if result = [] then (Success (S ''No new issues found.''), tr')
            else (Success (found_issues result), tr'))"

section \<open>Example data\<close>

text \<open>
  The scenario of the spec: repository \<open>octocat/Hello-World\<close> with issue 1, no labels
  and no assignees yet, the label \<open>bug\<close> in the catalog, and a tracker that answers
  every request.
\<close>

definition demo_issue :: issue where
  "demo_issue = \<lparr>number = 1, title = S ''Crash on start'', body = None, label_names = [],
     assignee_logins = [], created_at = Aware 100, html_url = S ''https://example.org/1'',
     state = S ''open'', pull_request = False, comments = []\<rparr>"

definition demo_tracker :: tracker where
  "demo_tracker =
     \<lparr>repos = [S ''octocat/Hello-World'' \<mapsto>
                \<lparr>issues = [demo_issue], label_catalog = [S ''bug''], assignable = [S ''alice'']\<rparr>],
      faults = (\<lambda>_. None), log = []\<rparr>"

text \<open>
  Stand-ins for the library's functions on the example data: \<open>repr\<close> of a list of
  plain words, and a parser and a printer that know the one date of the examples.
\<close>

definition demo_repr :: "pystr list \<Rightarrow> pystr" where
  "demo_repr xs = S ''['' @ join (S '', '') (map (\<lambda>x. [39] @ x @ [39]) xs) @ S '']''"

definition demo_py :: py where
  "demo_py =
     \<lparr>fromisoformat = (\<lambda>s. if s = S ''2024-01-01T00:00:00+00:00'' then Some (Aware 50) else None),
      isoformat = (\<lambda>d. S ''2024-01-01T00:00:00+00:00''),
      repr_list = demo_repr\<rparr>"

definition demo_environ :: "pystr \<rightharpoonup> pystr" where
  "demo_environ = [S ''GITHUB_TOKEN'' \<mapsto> S ''token'']"

text \<open>
  A repository for the listing: an older issue, the issue of the scenario, a pull
  request and a closed issue.
\<close>

definition old_issue :: issue where
  "old_issue = \<lparr>number = 2, title = S ''Typo in README'', body = Some (S ''See the first line.''),
     label_names = [S ''bug''], assignee_logins = [S ''alice''], created_at = Aware 10,
     html_url = S ''https://example.org/2'', state = S ''open'', pull_request = False,
     comments = []\<rparr>"

definition demo_pull :: issue where
  "demo_pull = \<lparr>number = 3, title = S ''Fix the crash'', body = None, label_names = [],
     assignee_logins = [], created_at = Aware 200, html_url = S ''https://example.org/3'',
     state = S ''open'', pull_request = True, comments = []\<rparr>"

definition closed_issue :: issue where
  "closed_issue = \<lparr>number = 4, title = S ''Done'', body = None, label_names = [],
     assignee_logins = [], created_at = Aware 300, html_url = S ''https://example.org/4'',
     state = S ''closed'', pull_request = False, comments = []\<rparr>"

definition listing_repo :: repo where
  "listing_repo = \<lparr>issues = [old_issue, demo_issue, demo_pull, closed_issue],
     label_catalog = [S ''bug''], assignable = [S ''alice'']\<rparr>"

definition listing_tracker :: tracker where
  "listing_tracker =
     \<lparr>repos = [S ''octocat/Hello-World'' \<mapsto> listing_repo], faults = (\<lambda>_. None), log = []\<rparr>"

text \<open>
  A tracker out of reach, every request ending in a transport error, and a tracker
  that answers again.
\<close>

definition connection_reset :: exn where
  "connection_reset = Exception (S ''Connection reset by peer'')"

definition cut_off :: "tracker \<Rightarrow> tracker" where
  "cut_off tr = tr\<lparr>faults := (\<lambda>_. Some connection_reset)\<rparr>"

definition reachable :: "tracker \<Rightarrow> tracker" where
  "reachable tr = tr\<lparr>faults := (\<lambda>_. None)\<rparr>"

section \<open>Vocabulary of the proofs\<close>

text \<open>The first two requests of the three tools that work on one issue.\<close>

definition fetched :: "tracker \<Rightarrow> pystr \<Rightarrow> int \<Rightarrow> issue \<Rightarrow> bool" where
  "fetched tr repository n i \<longleftrightarrow>
     faults tr (GetRepo repository) = None \<and> faults tr (GetIssue repository n) = None \<and>
     lookup_issue tr repository n = Some i"

text \<open>
  The prefixes of the failure texts, and what it means for an outcome to be told by
  its prefix: a failure has one of them, a success or a no-op has none.
\<close>

definition failure_prefix :: "pystr \<Rightarrow> bool" where
  "failure_prefix t \<longleftrightarrow> prefix (S ''Error'') t \<or> prefix (S ''GitHub API Error: '') t"

fun prefix_tells :: "outcome \<Rightarrow> bool" where
  "prefix_tells (Failure t) = failure_prefix t"
| "prefix_tells (Success t) = (\<not> failure_prefix t)"
| "prefix_tells (NoOp t) = (\<not> failure_prefix t)"

section \<open>Properties\<close>

subsection \<open>Auxiliary facts\<close>

lemma strip_empty_iff: "strip s = [] \<longleftrightarrow> (\<forall>c \<in> set s. isspace c)"
proof
  assume "strip s = []"
  then have all: "\<forall>x \<in> set (dropWhile isspace s). isspace x"
    by (simp add: strip_def dropWhile_eq_Nil_conv)
  have "dropWhile isspace s = []"
  proof (rule ccontr)
    assume ne: "dropWhile isspace s \<noteq> []"
    then have "\<not> isspace (hd (dropWhile isspace s))" by (rule hd_dropWhile)
    moreover have "hd (dropWhile isspace s) \<in> set (dropWhile isspace s)" using ne by simp
    ultimately show False using all by blast
  qed
  then show "\<forall>c \<in> set s. isspace c" by (simp add: dropWhile_eq_Nil_conv)
next
  assume "\<forall>c \<in> set s. isspace c"
  then have "dropWhile isspace s = []" by (simp add: dropWhile_eq_Nil_conv)
  then show "strip s = []" unfolding strip_def by (simp del: dropWhile_eq_Nil_conv)
qed

lemmas remote_defs = and_then_def returns_def raises_def request_def catch_def

lemma CommentOnIssue_try_Inr:
  "CommentOnIssue_try repository n comment tr = (Inr out, tr') \<Longrightarrow>
   out = Success (comment_added n comment)"
  by (auto simp: CommentOnIssue_try_def remote_defs get_repo_def get_issue_def create_comment_def
      split: option.splits prod.splits sum.splits if_splits)

lemma CommentOnIssue_except_not_Success [simp]:
  "CommentOnIssue_except n r e \<noteq> Success t"
  by (cases e) auto

lemma CommentOnIssue_run_Success:
  assumes "CommentOnIssue_run environ tr repository n comment = (Success t, tr')"
  shows "t = comment_added n comment"
proof (cases "CommentOnIssue_try repository n comment tr")
  case (Pair res tr1)
  show ?thesis
  proof (cases res)
    case (Inl e)
    with Pair assms show ?thesis
      by (simp add: CommentOnIssue_run_def split: if_splits)
  next
    case (Inr out)
    with Pair assms have "out = Success t"
      by (simp add: CommentOnIssue_run_def split: if_splits)
    moreover have "out = Success (comment_added n comment)"
      using Pair Inr CommentOnIssue_try_Inr by blast
    ultimately show ?thesis by simp
  qed
qed

lemma find_update_number:
  assumes "\<And>i. number (f i) = number i"
  shows "find (\<lambda>i. number i = n) (map (\<lambda>i. if number i = n then f i else i) xs) =
         map_option f (find (\<lambda>i. number i = n) xs)"
  using assms by (induction xs) auto

lemma lookup_issue_update:
  assumes "\<And>i. number (f i) = number i"
  shows "lookup_issue (update_issue repository n f tr) repository n =
         map_option f (lookup_issue tr repository n)"
  using find_update_number [OF assms]
  by (auto simp: lookup_issue_def update_issue_def split: option.splits)

lemma lookup_issue_log [simp]: "lookup_issue (tr\<lparr>log := l\<rparr>) = lookup_issue tr"
  by (simp add: lookup_issue_def fun_eq_iff)

lemma catalog_of_log [simp]: "catalog_of (tr\<lparr>log := l\<rparr>) = catalog_of tr"
  by (simp add: catalog_of_def fun_eq_iff)

lemma assignable_of_log [simp]: "assignable_of (tr\<lparr>log := l\<rparr>) = assignable_of tr"
  by (simp add: assignable_of_def fun_eq_iff)

lemma update_issue_log:
  "update_issue repository n f (tr\<lparr>log := l\<rparr>) = (update_issue repository n f tr)\<lparr>log := l\<rparr>"
  by (simp add: update_issue_def split: option.splits)

lemma faults_update_issue [simp]: "faults (update_issue repository n f tr) = faults tr"
  by (simp add: update_issue_def split: option.splits)

lemma log_update_issue [simp]: "log (update_issue repository n f tr) = log tr"
  by (simp add: update_issue_def split: option.splits)

lemma set_union_list: "set (union_list old new) = set old \<union> set new"
  by (auto simp: union_list_def)

lemma lookup_issue_repo:
  "lookup_issue tr repository n = Some i \<Longrightarrow> repos tr repository \<noteq> None"
  by (auto simp: lookup_issue_def split: option.splits)

lemma lookup_issue_number:
  "lookup_issue tr repository n = Some i \<Longrightarrow> number i = n"
  by (auto simp: lookup_issue_def find_Some_iff split: option.splits)

lemma get_repo_eq:
  "get_repo repository tr =
     ((case faults tr (GetRepo repository) of
         Some e \<Rightarrow> Inl e
       | None \<Rightarrow> (case repos tr repository of None \<Rightarrow> Inl not_found | Some r \<Rightarrow> Inr repository)),
      tr\<lparr>log := log tr @ [GetRepo repository]\<rparr>)"
  by (simp add: get_repo_def and_then_def request_def returns_def raises_def split: option.splits)

lemma get_issue_eq:
  "get_issue repository n tr =
     ((case faults tr (GetIssue repository n) of
         Some e \<Rightarrow> Inl e
       | None \<Rightarrow> (case lookup_issue tr repository n of None \<Rightarrow> Inl not_found | Some i \<Rightarrow> Inr i)),
      tr\<lparr>log := log tr @ [GetIssue repository n]\<rparr>)"
  by (simp add: get_issue_def and_then_def request_def returns_def raises_def split: option.splits)

lemma get_labels_eq:
  "get_labels repository tr =
     ((case faults tr (GetLabels repository) of
         Some e \<Rightarrow> Inl e
       | None \<Rightarrow> (case repos tr repository of None \<Rightarrow> Inl not_found | Some r \<Rightarrow> Inr (label_catalog r))),
      tr\<lparr>log := log tr @ [GetLabels repository]\<rparr>)"
  by (simp add: get_labels_def and_then_def request_def returns_def raises_def split: option.splits)

lemma get_issues_eq:
  "get_issues repository tr =
     ((case faults tr (GetIssues repository) of
         Some e \<Rightarrow> Inl e
       | None \<Rightarrow> (case repos tr repository of None \<Rightarrow> Inl not_found | Some r \<Rightarrow> Inr (open_issues_desc r))),
      tr\<lparr>log := log tr @ [GetIssues repository]\<rparr>)"
  by (simp add: get_issues_def and_then_def request_def returns_def raises_def split: option.splits)

lemma add_to_labels_cases:
  assumes "add_to_labels repository issue names tr = (res, tr')"
  shows "(\<exists>e. res = Inl e \<and> tr' = tr\<lparr>log := log tr @ [AddToLabels repository (number issue) names]\<rparr>) \<or>
         (\<exists>i. lookup_issue tr repository (number issue) = Some i \<and>
              faults tr (AddToLabels repository (number issue) names) = None \<and>
              set names \<subseteq> set (catalog_of tr repository) \<and>
              res = Inr () \<and>
              tr' = (update_issue repository (number issue)
                      (\<lambda>i. i\<lparr>label_names := union_list (label_names i) names\<rparr>) tr)
                    \<lparr>log := log tr @ [AddToLabels repository (number issue) names]\<rparr>)"
  using assms
  by (auto simp: add_to_labels_def and_then_def request_def returns_def raises_def update_issue_log
      split: option.splits if_splits)

lemma AddLabelToIssue_try_effect:
  assumes "AddLabelToIssue_try py repository n labels tr = (res, tr')"
  shows "(\<exists>l. tr' = tr\<lparr>log := l\<rparr>) \<or>
         (\<exists>i t l. lookup_issue tr repository n = Some i \<and> res = Inr (Success t) \<and>
            set (filter (\<lambda>label. label \<notin> set (label_names i)) labels) \<subseteq> set (catalog_of tr repository) \<and>
            tr' = (update_issue repository n
              (\<lambda>j. j\<lparr>label_names := union_list (label_names j)
                       (filter (\<lambda>label. label \<notin> set (label_names i)) labels)\<rparr>) tr)\<lparr>log := l\<rparr>)"
  using assms
  apply (simp add: AddLabelToIssue_try_def and_then_def returns_def get_repo_eq get_issue_eq get_labels_eq Let_def
      split: option.splits prod.splits sum.splits if_splits)
  apply (auto dest!: add_to_labels_cases simp: update_issue_log dest!: lookup_issue_number)
  done


lemma add_to_labels_ok:
  assumes "faults tr (AddToLabels repository (number issue) names) = None"
      and "lookup_issue tr repository (number issue) = Some i"
      and "set names \<subseteq> set (catalog_of tr repository)"
  shows "add_to_labels repository issue names tr =
           (Inr (),
            (update_issue repository (number issue)
               (\<lambda>i. i\<lparr>label_names := union_list (label_names i) names\<rparr>) tr)
            \<lparr>log := log tr @ [AddToLabels repository (number issue) names]\<rparr>)"
  using assms
  by (simp add: add_to_labels_def and_then_def request_def returns_def raises_def update_issue_log)

lemma catalog_of_Some: "repos tr repository = Some r \<Longrightarrow> catalog_of tr repository = label_catalog r"
  by (simp add: catalog_of_def)

lemma AddLabelToIssue_except_Failure [simp]:
  "AddLabelToIssue_except n r e \<noteq> Success t" "AddLabelToIssue_except n r e \<noteq> NoOp t"
  by (cases e; simp)+

lemma AddLabelToIssue_run_effect:
  assumes "lookup_issue tr repository n = Some i"
  shows "\<exists>l. snd (AddLabelToIssue_run py environ tr repository n labels) = tr\<lparr>log := l\<rparr> \<or>
           snd (AddLabelToIssue_run py environ tr repository n labels) =
             (update_issue repository n
                (\<lambda>j. j\<lparr>label_names := union_list (label_names j)
                         (filter (\<lambda>label. label \<notin> set (label_names i)) labels)\<rparr>) tr)\<lparr>log := l\<rparr>"
proof (cases "no_token (os_getenv environ (S ''GITHUB_TOKEN''))")
  case True
  then have "snd (AddLabelToIssue_run py environ tr repository n labels) = tr\<lparr>log := log tr\<rparr>"
    by (simp add: AddLabelToIssue_run_def)
  then show ?thesis by blast
next
  case False
  obtain res tr' where t: "AddLabelToIssue_try py repository n labels tr = (res, tr')"
    by (cases "AddLabelToIssue_try py repository n labels tr")
  with False have "snd (AddLabelToIssue_run py environ tr repository n labels) = tr'"
    by (simp add: AddLabelToIssue_run_def split: sum.splits)
  with AddLabelToIssue_try_effect [OF t] assms show ?thesis
    by auto
qed

lemma AddLabelToIssue_run_added:
  assumes token: "os_getenv environ (S ''GITHUB_TOKEN'') = Some token" "token \<noteq> []"
      and answers: "\<And>c. faults tr c = None"
      and issue: "lookup_issue tr repository n = Some i"
      and to_add: "filter (\<lambda>label. label \<notin> set (label_names i)) labels \<noteq> []"
      and valid: "set (filter (\<lambda>label. label \<notin> set (label_names i)) labels) \<subseteq> set (catalog_of tr repository)"
  shows "snd (AddLabelToIssue_run py environ tr repository n labels) =
           (update_issue repository n
              (\<lambda>j. j\<lparr>label_names := union_list (label_names j)
                       (filter (\<lambda>label. label \<notin> set (label_names i)) labels)\<rparr>) tr)
           \<lparr>log := log tr @ [GetRepo repository, GetIssue repository n, GetLabels repository,
                AddToLabels repository n (filter (\<lambda>label. label \<notin> set (label_names i)) labels)]\<rparr>"
proof -
  from issue obtain r where r: "repos tr repository = Some r"
    using lookup_issue_repo by fastforce
  have num: "number i = n"
    using issue by (rule lookup_issue_number)
  have inv: "filter (\<lambda>x. x \<notin> set (label_names i) \<and> x \<notin> set (label_catalog r)) labels = []"
    using valid r by (auto simp: filter_empty_conv catalog_of_Some)
  let ?names = "filter (\<lambda>label. label \<notin> set (label_names i)) labels"
  let ?tr3 = "tr\<lparr>log := log tr @ [GetRepo repository, GetIssue repository n, GetLabels repository]\<rparr>"
  have add: "add_to_labels repository i ?names ?tr3 =
           (Inr (),
            (update_issue repository (number i)
               (\<lambda>i. i\<lparr>label_names := union_list (label_names i) ?names\<rparr>) ?tr3)
            \<lparr>log := log ?tr3 @ [AddToLabels repository (number i) ?names]\<rparr>)"
    by (rule add_to_labels_ok) (use answers issue valid num in simp_all)
  show ?thesis
    using token answers issue r to_add inv num
    by (simp add: AddLabelToIssue_run_def AddLabelToIssue_try_def no_token_def and_then_def returns_def
        get_repo_eq get_issue_eq get_labels_eq Let_def add update_issue_log)
qed

text \<open>Facts about the example data.\<close>

lemma demo_token:
  "os_getenv demo_environ (S ''GITHUB_TOKEN'') = Some (S ''token'')" "S ''token'' \<noteq> []"
  by (simp_all add: os_getenv_def demo_environ_def S_def)

lemma demo_lookup:
  "lookup_issue demo_tracker (S ''octocat/Hello-World'') 1 = Some demo_issue"
  by (simp add: lookup_issue_def demo_tracker_def demo_issue_def)

lemma demo_faults: "faults demo_tracker c = None"
  by (simp add: demo_tracker_def)

lemma demo_catalog: "catalog_of demo_tracker (S ''octocat/Hello-World'') = [S ''bug'']"
  by (simp add: catalog_of_def demo_tracker_def)

lemma demo_labels: "label_names demo_issue = []"
  by (simp add: demo_issue_def)

text \<open>Fetching the issue, and \<open>AssignIssue._run\<close> case by case.\<close>

lemma fetch_ok:
  assumes "fetched tr repository n i"
  shows "and_then (get_repo repository) (\<lambda>repo. and_then (get_issue repo n) (k repo)) tr =
         k repository i (tr\<lparr>log := log tr @ [GetRepo repository, GetIssue repository n]\<rparr>)"
proof -
  from assms have "repos tr repository \<noteq> None"
    by (auto simp: fetched_def dest: lookup_issue_repo)
  with assms show ?thesis
    by (auto simp: fetched_def and_then_def get_repo_eq get_issue_eq)
qed

lemma fetch_fail:
  assumes "\<forall>i. \<not> fetched tr repository n i"
  obtains e l where
    "\<And>k. and_then (get_repo repository) (\<lambda>repo. and_then (get_issue repo n) (k repo)) tr =
           (Inl e, tr\<lparr>log := l\<rparr>)"
proof (cases "faults tr (GetRepo repository)")
  case (Some e)
  then have "and_then (get_repo repository) (\<lambda>repo. and_then (get_issue repo n) (k repo)) tr =
           (Inl e, tr\<lparr>log := log tr @ [GetRepo repository]\<rparr>)" for k
    by (simp add: and_then_def get_repo_eq)
  then show ?thesis by (rule that)
next
  case None
  note repo_ok = this
  show ?thesis
  proof (cases "repos tr repository")
    case None
    with repo_ok have "and_then (get_repo repository) (\<lambda>repo. and_then (get_issue repo n) (k repo)) tr =
           (Inl not_found, tr\<lparr>log := log tr @ [GetRepo repository]\<rparr>)" for k
      by (simp add: and_then_def get_repo_eq)
    then show ?thesis by (rule that)
  next
    case (Some r)
    show ?thesis
    proof (cases "faults tr (GetIssue repository n)")
      case (Some e)
      with repo_ok \<open>repos tr repository = Some r\<close>
      have "and_then (get_repo repository) (\<lambda>repo. and_then (get_issue repo n) (k repo)) tr =
           (Inl e, tr\<lparr>log := log tr @ [GetRepo repository, GetIssue repository n]\<rparr>)" for k
        by (simp add: and_then_def get_repo_eq get_issue_eq)
      then show ?thesis by (rule that)
    next
      case None
      with assms repo_ok have "lookup_issue tr repository n = None"
        by (cases "lookup_issue tr repository n") (auto simp: fetched_def)
      with None repo_ok \<open>repos tr repository = Some r\<close>
      have "and_then (get_repo repository) (\<lambda>repo. and_then (get_issue repo n) (k repo)) tr =
           (Inl not_found, tr\<lparr>log := log tr @ [GetRepo repository, GetIssue repository n]\<rparr>)" for k
        by (simp add: and_then_def get_repo_eq get_issue_eq)
      then show ?thesis by (rule that)
    qed
  qed
qed

lemma fetched_log [simp]: "fetched (tr\<lparr>log := l\<rparr>) = fetched tr"
  by (simp add: fetched_def fun_eq_iff)

lemma add_to_assignees_eq:
  "add_to_assignees repository issue logins tr =
     (case faults tr (AddToAssignees repository (number issue) logins) of
        Some e \<Rightarrow> (Inl e, tr\<lparr>log := log tr @ [AddToAssignees repository (number issue) logins]\<rparr>)
      | None \<Rightarrow>
          (case lookup_issue tr repository (number issue) of
             None \<Rightarrow> (Inl not_found, tr\<lparr>log := log tr @ [AddToAssignees repository (number issue) logins]\<rparr>)
           | Some i \<Rightarrow>
               if \<not> set logins \<subseteq> set (assignable_of tr repository)
               then (Inl unprocessable,
                     tr\<lparr>log := log tr @ [AddToAssignees repository (number issue) logins]\<rparr>)
               else (Inr (i\<lparr>assignee_logins := union_list (assignee_logins i) logins\<rparr>),
                     (update_issue repository (number issue)
                        (\<lambda>i. i\<lparr>assignee_logins := union_list (assignee_logins i) logins\<rparr>) tr)
                     \<lparr>log := log tr @ [AddToAssignees repository (number issue) logins]\<rparr>)))"
  by (simp add: add_to_assignees_def and_then_def request_def returns_def raises_def update_issue_log
      split: option.splits)

lemma AssignIssue_except_Failure [simp]:
  "AssignIssue_except n r e \<noteq> Success t" "AssignIssue_except n r e \<noteq> NoOp t"
  by (cases e; simp)+

lemma AssignIssue_inner_except_cases:
  "AssignIssue_inner_except py names e tr = (Inl e, tr) \<or>
   AssignIssue_inner_except py names e tr = (Inr (Failure (assignees_rejected py names)), tr)"
  by (cases e) (simp_all add: returns_def raises_def)


lemma assign_step:
  assumes "catch (and_then (add_to_assignees repository issue names)
                    (\<lambda>issue. returns (Success (g issue))))
             (AssignIssue_inner_except py names) tr = (res, tr')"
  obtains (raise) e l where "res = Inl e" "tr' = tr\<lparr>log := l\<rparr>"
    | (reject) t l where "res = Inr (Failure t)" "tr' = tr\<lparr>log := l\<rparr>"
    | (added) t l where "res = Inr (Success t)"
        "tr' = (update_issue repository (number issue)
                  (\<lambda>i. i\<lparr>assignee_logins := union_list (assignee_logins i) names\<rparr>) tr)
               \<lparr>log := l\<rparr>"
proof (cases "add_to_assignees repository issue names tr")
  case (Pair r1 tr1)
  show ?thesis
  proof (cases r1)
    case (Inl e)
    with Pair have tr1: "tr1 = tr\<lparr>log := log tr @ [AddToAssignees repository (number issue) names]\<rparr>"
      by (simp add: add_to_assignees_eq split: option.splits if_splits)
    from Pair Inl assms have "AssignIssue_inner_except py names e tr1 = (res, tr')"
      by (simp add: catch_def and_then_def)
    with AssignIssue_inner_except_cases [of py names e tr1]
    have "(res = Inl e \<and> tr' = tr1) \<or> (res = Inr (Failure (assignees_rejected py names)) \<and> tr' = tr1)"
      by auto
    with tr1 show ?thesis
      using raise reject by blast
  next
    case (Inr i')
    with Pair have "tr1 = (update_issue repository (number issue)
                     (\<lambda>i. i\<lparr>assignee_logins := union_list (assignee_logins i) names\<rparr>) tr)
                  \<lparr>log := log tr @ [AddToAssignees repository (number issue) names]\<rparr>"
      by (simp add: add_to_assignees_eq split: option.splits if_splits)
    moreover from Pair Inr assms have "res = Inr (Success (g i'))" "tr' = tr1"
      by (simp_all add: catch_def and_then_def returns_def)
    ultimately show ?thesis
      using added by blast
  qed
qed

lemma AssignIssue_try_cases:
  assumes "AssignIssue_try py repository n assignees tr = (res, tr')"
  obtains (raise) e l where "res = Inl e" "tr' = tr\<lparr>log := l\<rparr>"
    | (reject) t l where "res = Inr (Failure t)" "tr' = tr\<lparr>log := l\<rparr>"
    | (noop) i where "fetched tr repository n i" "set assignees \<subseteq> set (assignee_logins i)"
        "res = Inr (NoOp (already_assigned py n (assignee_logins i)))"
        "tr' = tr\<lparr>log := log tr @ [GetRepo repository, GetIssue repository n]\<rparr>"
    | (added) i t l where "fetched tr repository n i" "res = Inr (Success t)"
        "tr' = (update_issue repository n
                  (\<lambda>j. j\<lparr>assignee_logins := union_list (assignee_logins j)
                           (filter (\<lambda>assignee. assignee \<notin> set (assignee_logins i)) assignees)\<rparr>) tr)
               \<lparr>log := l\<rparr>"
proof (cases "\<exists>i. fetched tr repository n i")
  case False
  then obtain e l where
    "\<And>k :: pystr \<Rightarrow> issue \<Rightarrow> outcome remote.
        and_then (get_repo repository) (\<lambda>repo. and_then (get_issue repo n) (k repo)) tr =
           (Inl e, tr\<lparr>log := l\<rparr>)"
    using fetch_fail [of tr repository n] by blast
  with assms have "res = Inl e" "tr' = tr\<lparr>log := l\<rparr>"
    by (simp_all add: AssignIssue_try_def)
  then show ?thesis by (rule raise)
next
  case True
  then obtain i where i: "fetched tr repository n i" by blast
  then have num: "number i = n"
    by (auto simp: fetched_def dest: lookup_issue_number)
  let ?names = "filter (\<lambda>assignee. assignee \<notin> set (assignee_logins i)) assignees"
  let ?tr2 = "tr\<lparr>log := log tr @ [GetRepo repository, GetIssue repository n]\<rparr>"
  show ?thesis
  proof (cases "?names = []")
    case True
    with assms i have "res = Inr (NoOp (already_assigned py n (assignee_logins i)))" "tr' = ?tr2"
      by (simp_all add: AssignIssue_try_def fetch_ok Let_def returns_def)
    moreover from True have "set assignees \<subseteq> set (assignee_logins i)"
      by (auto simp: filter_empty_conv)
    ultimately show ?thesis using i noop by blast
  next
    case False
    with assms i have
      "catch (and_then (add_to_assignees repository i ?names)
                (\<lambda>issue. returns (Success (assignees_added py ?names n (assignee_logins issue)))))
         (AssignIssue_inner_except py ?names) ?tr2 = (res, tr')"
      by (simp add: AssignIssue_try_def fetch_ok Let_def)
    then show ?thesis
    proof (cases rule: assign_step)
      case (raise e l)
      then show ?thesis using that(1) by simp
    next
      case (reject t l)
      then show ?thesis using that(2) by simp
    next
      case (added t l)
      then have "tr' = (update_issue repository n
                  (\<lambda>j. j\<lparr>assignee_logins := union_list (assignee_logins j) ?names\<rparr>) tr)
               \<lparr>log := l\<rparr>"
        using num by (simp add: update_issue_log)
      with added(1) i show ?thesis using that(4) by blast
    qed
  qed
qed

lemma AssignIssue_run_cases:
  assumes "AssignIssue_run py environ tr repository n assignees = (out, tr')"
  obtains (fail) t l where "out = Failure t" "tr' = tr\<lparr>log := l\<rparr>"
    | (noop) i l where "\<not> no_token (os_getenv environ (S ''GITHUB_TOKEN''))"
        "fetched tr repository n i" "set assignees \<subseteq> set (assignee_logins i)"
        "out = NoOp (already_assigned py n (assignee_logins i))" "tr' = tr\<lparr>log := l\<rparr>"
    | (added) i t l where "\<not> no_token (os_getenv environ (S ''GITHUB_TOKEN''))"
        "fetched tr repository n i" "out = Success t"
        "tr' = (update_issue repository n
                  (\<lambda>j. j\<lparr>assignee_logins := union_list (assignee_logins j)
                           (filter (\<lambda>assignee. assignee \<notin> set (assignee_logins i)) assignees)\<rparr>) tr)
               \<lparr>log := l\<rparr>"
proof (cases "no_token (os_getenv environ (S ''GITHUB_TOKEN''))")
  case True
  with assms have "out = Failure token_not_set" "tr' = tr\<lparr>log := log tr\<rparr>"
    by (simp_all add: AssignIssue_run_def)
  then show ?thesis by (rule fail)
next
  case False
  obtain res t1 where t: "AssignIssue_try py repository n assignees tr = (res, t1)"
    by (cases "AssignIssue_try py repository n assignees tr")
  from t show ?thesis
  proof (cases rule: AssignIssue_try_cases)
    case (raise e l)
    with t False assms have o: "out = AssignIssue_except n repository e" "tr' = tr\<lparr>log := l\<rparr>"
      by (simp_all add: AssignIssue_run_def)
    obtain x where "AssignIssue_except n repository e = Failure x"
      by (cases "AssignIssue_except n repository e") simp_all
    with o show ?thesis using fail by simp
  next
    case (reject x l)
    with t False assms have "out = Failure x" "tr' = tr\<lparr>log := l\<rparr>"
      by (simp_all add: AssignIssue_run_def)
    then show ?thesis by (rule fail)
  next
    case (noop i)
    with t False assms have "out = NoOp (already_assigned py n (assignee_logins i))"
      "tr' = tr\<lparr>log := log tr @ [GetRepo repository, GetIssue repository n]\<rparr>"
      by (simp_all add: AssignIssue_run_def)
    with False noop(1,2) show ?thesis using that(2) by blast
  next
    case (added i x l)
    with t False assms have "out = Success x" "tr' = t1"
      by (simp_all add: AssignIssue_run_def)
    with False added show ?thesis using that(3) by blast
  qed
qed

lemma AssignIssue_run_noop:
  assumes "\<not> no_token (os_getenv environ (S ''GITHUB_TOKEN''))"
      and "fetched tr repository n i"
      and "set assignees \<subseteq> set (assignee_logins i)"
  shows "AssignIssue_run py environ tr repository n assignees =
           (NoOp (already_assigned py n (assignee_logins i)),
            tr\<lparr>log := log tr @ [GetRepo repository, GetIssue repository n]\<rparr>)"
proof -
  have "filter (\<lambda>assignee. assignee \<notin> set (assignee_logins i)) assignees = []"
    using assms(3) by (auto simp: filter_empty_conv)
  with assms(1,2) show ?thesis
    by (simp add: AssignIssue_run_def AssignIssue_try_def fetch_ok Let_def returns_def)
qed

lemma AssignIssue_run_rejected:
  assumes "\<not> no_token (os_getenv environ (S ''GITHUB_TOKEN''))"
      and "fetched tr repository n i"
      and "names = filter (\<lambda>assignee. assignee \<notin> set (assignee_logins i)) assignees"
      and "names \<noteq> []"
      and "faults tr (AddToAssignees repository n names) = None"
      and "\<not> set names \<subseteq> set (assignable_of tr repository)"
  shows "AssignIssue_run py environ tr repository n assignees =
           (Failure (assignees_rejected py names),
            tr\<lparr>log := log tr @ [GetRepo repository, GetIssue repository n,
                                 AddToAssignees repository n names]\<rparr>)"
proof -
  have num: "number i = n"
    using assms(2) by (auto simp: fetched_def dest: lookup_issue_number)
  have look: "lookup_issue tr repository n = Some i"
    using assms(2) by (simp add: fetched_def)
  show ?thesis
    using assms(1,2,4,5,6) num look
    unfolding assms(3)
    apply (simp add: AssignIssue_run_def AssignIssue_try_def fetch_ok Let_def)
    apply (simp add: catch_def and_then_def add_to_assignees_eq unprocessable_def returns_def)
    done
qed

lemma AssignIssue_run_added:
  assumes "\<not> no_token (os_getenv environ (S ''GITHUB_TOKEN''))"
      and "fetched tr repository n i"
      and "names = filter (\<lambda>assignee. assignee \<notin> set (assignee_logins i)) assignees"
      and "names \<noteq> []"
      and "faults tr (AddToAssignees repository n names) = None"
      and "set names \<subseteq> set (assignable_of tr repository)"
  shows "AssignIssue_run py environ tr repository n assignees =
           (Success (assignees_added py names n (union_list (assignee_logins i) names)),
            (update_issue repository n
               (\<lambda>j. j\<lparr>assignee_logins := union_list (assignee_logins j) names\<rparr>) tr)
            \<lparr>log := log tr @ [GetRepo repository, GetIssue repository n,
                                 AddToAssignees repository n names]\<rparr>)"
proof -
  have num: "number i = n"
    using assms(2) by (auto simp: fetched_def dest: lookup_issue_number)
  have look: "lookup_issue tr repository n = Some i"
    using assms(2) by (simp add: fetched_def)
  show ?thesis
    using assms(1,2,4,5,6) num look
    unfolding assms(3)
    apply (simp add: AssignIssue_run_def AssignIssue_try_def fetch_ok Let_def)
    apply (simp add: catch_def and_then_def add_to_assignees_eq update_issue_log returns_def)
    done
qed

lemma demo_has_token: "\<not> no_token (os_getenv demo_environ (S ''GITHUB_TOKEN''))"
  by (simp add: no_token_def demo_token)

lemma demo_fetched: "fetched demo_tracker (S ''octocat/Hello-World'') 1 demo_issue"
  by (simp add: fetched_def demo_faults demo_lookup)

lemma demo_assignees: "assignee_logins demo_issue = []"
  by (simp add: demo_issue_def)

lemma demo_assignable: "assignable_of demo_tracker (S ''octocat/Hello-World'') = [S ''alice'']"
  by (simp add: assignable_of_def demo_tracker_def)

text \<open>The texts of the four tools, by kind of outcome.\<close>

lemma failure_texts:
  "failure_prefix token_not_set"
  "failure_prefix (issue_not_found n r)"
  "failure_prefix (api_error msg)"
  "failure_prefix (S ''Error: Comment cannot be empty.'')"
  "failure_prefix (S ''Error: Permission denied. Check that GITHUB_TOKEN has write access to issues.'')"
  "failure_prefix (S ''Error adding comment: '' @ msg)"
  "failure_prefix (S ''Error: Invalid label name(s). Please check that labels exist in the repository.'')"
  "failure_prefix (S ''Error adding labels: '' @ msg)"
  "failure_prefix (S ''Error assigning issue: '' @ msg)"
  "failure_prefix (S ''Error fetching issues: '' @ msg)"
  "failure_prefix (labels_do_not_exist py a b)"
  "failure_prefix (assignees_rejected py a)"
  by (simp_all add: failure_prefix_def token_not_set_def issue_not_found_def api_error_def
      labels_do_not_exist_def assignees_rejected_def S_def)

lemma success_texts:
  "\<not> failure_prefix (comment_added n c)"
  "\<not> failure_prefix (labels_added py a n b)"
  "\<not> failure_prefix (labels_already_exist py n b)"
  "\<not> failure_prefix (assignees_added py a n b)"
  "\<not> failure_prefix (already_assigned py n b)"
  "\<not> failure_prefix (S ''No new issues found.'')"
  "\<not> failure_prefix (found_issues result)"
  by (simp_all add: failure_prefix_def comment_added_def labels_added_def labels_already_exist_def
      assignees_added_def already_assigned_def found_issues_def check_mark_def info_mark_def S_def)

lemma prefix_tells_excepts:
  "prefix_tells (CommentOnIssue_except n r e)"
  "prefix_tells (AddLabelToIssue_except n r e)"
  "prefix_tells (AssignIssue_except n r e)"
  "prefix_tells (GetNewIssues_except e)"
  by (cases e; simp add: failure_texts)+


lemma AddLabelToIssue_try_text:
  assumes "AddLabelToIssue_try py repository n labels tr = (Inr out, tr')"
  shows "(\<exists>a b. out = Failure (labels_do_not_exist py a b)) \<or>
         (\<exists>a b. out = Success (labels_added py a n b)) \<or>
         (\<exists>b. out = NoOp (labels_already_exist py n b))"
proof (cases "\<exists>i. fetched tr repository n i")
  case False
  then obtain e l where
    "\<And>k :: pystr \<Rightarrow> issue \<Rightarrow> outcome remote.
        and_then (get_repo repository) (\<lambda>repo. and_then (get_issue repo n) (k repo)) tr =
           (Inl e, tr\<lparr>log := l\<rparr>)"
    using fetch_fail [of tr repository n] by blast
  with assms show ?thesis
    by (simp add: AddLabelToIssue_try_def)
next
  case True
  then obtain i where i: "fetched tr repository n i" by blast
  let ?names = "filter (\<lambda>label. label \<notin> set (label_names i)) labels"
  let ?tr2 = "tr\<lparr>log := log tr @ [GetRepo repository, GetIssue repository n]\<rparr>"
  show ?thesis
  proof (cases "?names = []")
    case True
    with assms i show ?thesis
      by (auto simp: AddLabelToIssue_try_def fetch_ok Let_def returns_def)
  next
    case False
    with assms i have step:
      "and_then (get_labels repository) (\<lambda>repo_labels.
         if filter (\<lambda>label. label \<notin> set repo_labels) ?names \<noteq> []
         then returns (Failure (labels_do_not_exist py
                 (filter (\<lambda>label. label \<notin> set repo_labels) ?names) repo_labels))
         else and_then (add_to_labels repository i ?names)
                (\<lambda>_. let updated_labels = label_names i
                     in returns (Success (labels_added py ?names n updated_labels))))
       ?tr2 = (Inr out, tr')"
      by (simp add: AddLabelToIssue_try_def fetch_ok Let_def del: filter_filter)
    obtain r1 t1 where g: "get_labels repository ?tr2 = (r1, t1)"
      by (cases "get_labels repository ?tr2")
    show ?thesis
    proof (cases r1)
      case (Inl e)
      with step g show ?thesis by (simp add: and_then_def)
    next
      case (Inr repo_labels)
      show ?thesis
      proof (cases "filter (\<lambda>label. label \<notin> set repo_labels) ?names = []")
        case False
        with step g Inr show ?thesis
          by (auto simp: and_then_def returns_def)
      next
        case True
        obtain r2 t2 where a: "add_to_labels repository i ?names t1 = (r2, t2)"
          by (cases "add_to_labels repository i ?names t1")
        show ?thesis
        proof (cases r2)
          case (Inl e)
          with step g Inr True a show ?thesis by (simp add: and_then_def)
        next
          case (Inr i')
          with step g \<open>r1 = Inr repo_labels\<close> True a show ?thesis
            by (auto simp: and_then_def returns_def Let_def)
        qed
      qed
    qed
  qed
qed

lemma AssignIssue_try_text:
  assumes "AssignIssue_try py repository n assignees tr = (Inr out, tr')"
  shows "(\<exists>a. out = Failure (assignees_rejected py a)) \<or>
         (\<exists>a b. out = Success (assignees_added py a n b)) \<or>
         (\<exists>b. out = NoOp (already_assigned py n b))"
proof (cases "\<exists>i. fetched tr repository n i")
  case False
  then obtain e l where
    "\<And>k :: pystr \<Rightarrow> issue \<Rightarrow> outcome remote.
        and_then (get_repo repository) (\<lambda>repo. and_then (get_issue repo n) (k repo)) tr =
           (Inl e, tr\<lparr>log := l\<rparr>)"
    using fetch_fail [of tr repository n] by blast
  with assms show ?thesis
    by (simp add: AssignIssue_try_def)
next
  case True
  then obtain i where i: "fetched tr repository n i" by blast
  let ?names = "filter (\<lambda>assignee. assignee \<notin> set (assignee_logins i)) assignees"
  let ?tr2 = "tr\<lparr>log := log tr @ [GetRepo repository, GetIssue repository n]\<rparr>"
  show ?thesis
  proof (cases "?names = []")
    case True
    with assms i show ?thesis
      by (auto simp: AssignIssue_try_def fetch_ok Let_def returns_def)
  next
    case False
    with assms i have step:
      "catch (and_then (add_to_assignees repository i ?names)
                (\<lambda>issue. returns (Success (assignees_added py ?names n (assignee_logins issue)))))
         (AssignIssue_inner_except py ?names) ?tr2 = (Inr out, tr')"
      by (simp add: AssignIssue_try_def fetch_ok Let_def)
    obtain r1 t1 where a: "add_to_assignees repository i ?names ?tr2 = (r1, t1)"
      by (cases "add_to_assignees repository i ?names ?tr2")
    show ?thesis
    proof (cases r1)
      case (Inl e)
      with step a have "AssignIssue_inner_except py ?names e t1 = (Inr out, tr')"
        by (simp add: catch_def and_then_def)
      with AssignIssue_inner_except_cases [of py ?names e t1] show ?thesis
        by auto
    next
      case (Inr i')
      with step a show ?thesis
        by (auto simp: catch_def and_then_def returns_def)
    qed
  qed
qed

lemma prefix_tells_CommentOnIssue:
  "prefix_tells (fst (CommentOnIssue_run environ tr repository n comment))"
proof (cases "CommentOnIssue_try repository n comment tr")
  case (Pair res t1)
  show ?thesis
  proof (cases res)
    case (Inl e)
    with Pair show ?thesis
      by (simp add: CommentOnIssue_run_def failure_texts prefix_tells_excepts)
  next
    case (Inr out)
    with Pair CommentOnIssue_try_Inr [of repository n comment tr out t1] show ?thesis
      by (simp add: CommentOnIssue_run_def failure_texts success_texts)
  qed
qed

lemma prefix_tells_AddLabelToIssue:
  "prefix_tells (fst (AddLabelToIssue_run py environ tr repository n labels))"
proof (cases "AddLabelToIssue_try py repository n labels tr")
  case (Pair res t1)
  show ?thesis
  proof (cases res)
    case (Inl e)
    with Pair show ?thesis
      by (simp add: AddLabelToIssue_run_def failure_texts prefix_tells_excepts)
  next
    case (Inr out)
    with Pair AddLabelToIssue_try_text [of py repository n labels tr out t1] show ?thesis
      by (auto simp: AddLabelToIssue_run_def failure_texts success_texts)
  qed
qed

lemma prefix_tells_AssignIssue:
  "prefix_tells (fst (AssignIssue_run py environ tr repository n assignees))"
proof (cases "AssignIssue_try py repository n assignees tr")
  case (Pair res t1)
  show ?thesis
  proof (cases res)
    case (Inl e)
    with Pair show ?thesis
      by (simp add: AssignIssue_run_def failure_texts prefix_tells_excepts)
  next
    case (Inr out)
    with Pair AssignIssue_try_text [of py repository n assignees tr out t1] show ?thesis
      by (auto simp: AssignIssue_run_def failure_texts success_texts)
  qed
qed

lemma prefix_tells_GetNewIssues:
  "prefix_tells (fst (GetNewIssues_run py environ tr repository since))"
proof (cases "GetNewIssues_try py repository since tr")
  case (Pair res t1)
  show ?thesis
  proof (cases res)
    case (Inl e)
    with Pair show ?thesis
      by (simp add: GetNewIssues_run_def failure_texts prefix_tells_excepts)
  next
    case (Inr result)
    with Pair show ?thesis
      by (simp add: GetNewIssues_run_def failure_texts success_texts)
  qed
qed

text \<open>The loop of \<open>GetNewIssues._run\<close> and the listing of the example.\<close>

lemma issue_loop_unfiltered:
  assumes "since = [] \<or> fromisoformat py (replace_Z since) = None"
  shows "issue_loop py since xs result =
         Inr (result @ map (issue_data_of py) (filter (\<lambda>i. \<not> pull_request i) xs))"
  using assms by (induction xs arbitrary: result) auto

lemma issue_loop_filtered:
  assumes "since \<noteq> []" and "fromisoformat py (replace_Z since) = Some since_dt"
      and "issue_loop py since xs result = Inr r"
  shows "r = result @ map (issue_data_of py)
               (filter (\<lambda>i. \<not> pull_request i \<and> dt_less (created_at i) since_dt = Inr False) xs)"
  using assms
proof (induction xs arbitrary: result)
  case Nil
  then show ?case by simp
next
  case (Cons x xs)
  show ?case
  proof (cases "pull_request x")
    case True
    with Cons show ?thesis by simp
  next
    case False
    show ?thesis
    proof (cases "dt_less (created_at x) since_dt")
      case (Inl e)
      with False Cons.prems show ?thesis by simp
    next
      case (Inr before)
      show ?thesis
      proof (cases before)
        case True
        with Inr False Cons.prems have "issue_loop py since xs result = Inr r"
          by simp
        from Cons.IH [OF Cons.prems(1,2) this] Inr True False show ?thesis
          by simp
      next
        case not_before: False
        with Inr False Cons.prems
        have "issue_loop py since xs (result @ [issue_data_of py x]) = Inr r"
          by simp
        from Cons.IH [OF Cons.prems(1,2) this] Inr not_before False show ?thesis
          by simp
      qed
    qed
  qed
qed

lemma issue_loop_kept:
  assumes "issue_loop py since xs [] = Inr r"
  obtains kept where "r = map (issue_data_of py) kept" "subseq kept xs"
    "\<forall>i \<in> set kept. \<not> pull_request i"
proof (cases "since = [] \<or> fromisoformat py (replace_Z since) = None")
  case True
  from assms issue_loop_unfiltered [OF True, of xs "[]"]
  have "r = map (issue_data_of py) (filter (\<lambda>i. \<not> pull_request i) xs)"
    by simp
  then show ?thesis
    by (rule that) auto
next
  case False
  then obtain since_dt where "since \<noteq> []" "fromisoformat py (replace_Z since) = Some since_dt"
    by auto
  from issue_loop_filtered [OF this assms]
  have "r = map (issue_data_of py)
               (filter (\<lambda>i. \<not> pull_request i \<and> dt_less (created_at i) since_dt = Inr False) xs)"
    by simp
  then show ?thesis
    by (rule that) auto
qed

lemma GetNewIssues_try_Inr:
  assumes "GetNewIssues_try py repository since tr = (Inr result, tr')"
  obtains r where "repos tr repository = Some r"
    "issue_loop py since (take 20 (open_issues_desc r)) [] = Inr result"
    "tr' = tr\<lparr>log := log tr @ [GetRepo repository, GetIssues repository]\<rparr>"
proof (cases "faults tr (GetRepo repository)")
  case (Some e)
  with assms show ?thesis
    by (simp add: GetNewIssues_try_def and_then_def get_repo_eq)
next
  case None
  note f1 = this
  show ?thesis
  proof (cases "repos tr repository")
    case None
    with assms f1 show ?thesis
      by (simp add: GetNewIssues_try_def and_then_def get_repo_eq)
  next
    case (Some r)
    show ?thesis
    proof (cases "faults tr (GetIssues repository)")
      case (Some e)
      with assms f1 \<open>repos tr repository = Some r\<close> show ?thesis
        by (simp add: GetNewIssues_try_def and_then_def get_repo_eq get_issues_eq)
    next
      case None
      with assms f1 \<open>repos tr repository = Some r\<close>
      have "issue_loop py since (take 20 (open_issues_desc r)) [] = Inr result"
        "tr' = tr\<lparr>log := log tr @ [GetRepo repository, GetIssues repository]\<rparr>"
        by (simp_all add: GetNewIssues_try_def and_then_def get_repo_eq get_issues_eq)
      with \<open>repos tr repository = Some r\<close> show ?thesis
        by (rule that)
    qed
  qed
qed

lemma GetNewIssues_except_not_Success [simp]: "GetNewIssues_except e \<noteq> Success t"
  by (cases e) simp_all

lemma GetNewIssues_run_Success:
  assumes "GetNewIssues_run py environ tr repository since = (Success t, tr')"
  obtains r result where "repos tr repository = Some r"
    "issue_loop py since (take 20 (open_issues_desc r)) [] = Inr result"
    "t = (if result = [] then S ''No new issues found.'' else found_issues result)"
proof (cases "GetNewIssues_try py repository since tr")
  case (Pair res t1)
  show ?thesis
  proof (cases res)
    case (Inl e)
    with Pair assms show ?thesis
      by (simp add: GetNewIssues_run_def split: if_splits)
  next
    case (Inr result)
    with Pair assms have t: "t = (if result = [] then S ''No new issues found.'' else found_issues result)"
      by (simp add: GetNewIssues_run_def split: if_splits)
    from Pair Inr have "GetNewIssues_try py repository since tr = (Inr result, t1)"
      by simp
    then show ?thesis
    proof (cases rule: GetNewIssues_try_Inr)
      case (1 r)
      with t show ?thesis using that by blast
    qed
  qed
qed

lemma open_issues_desc_sorted:
  "sorted_wrt (\<lambda>a b. instant (created_at b) \<le> instant (created_at a)) (open_issues_desc r)"
proof -
  have "sorted (map (\<lambda>i. - instant (created_at i)) (open_issues_desc r))"
    unfolding open_issues_desc_def by (rule sorted_sort_key)
  then show ?thesis
    by (simp add: sorted_map)
qed

lemma open_issues_desc_set:
  "set (open_issues_desc r) = {i \<in> set (issues r). state i = S ''open''}"
  by (auto simp: open_issues_desc_def)

lemma listing_open: "open_issues_desc listing_repo = [demo_pull, demo_issue, old_issue]"
  by (simp add: open_issues_desc_def listing_repo_def demo_issue_def old_issue_def demo_pull_def
      closed_issue_def instant_def S_def)

lemma listing_repos: "repos listing_tracker (S ''octocat/Hello-World'') = Some listing_repo"
  by (simp add: listing_tracker_def)

lemma listing_faults: "faults listing_tracker c = None"
  by (simp add: listing_tracker_def)

lemma listing_try:
  "GetNewIssues_try demo_py (S ''octocat/Hello-World'') since listing_tracker =
     (issue_loop demo_py since [demo_pull, demo_issue, old_issue] [],
      listing_tracker\<lparr>log := log listing_tracker @
         [GetRepo (S ''octocat/Hello-World''), GetIssues (S ''octocat/Hello-World'')]\<rparr>)"
  unfolding GetNewIssues_try_def and_then_def get_repo_eq listing_faults listing_repos
  by (simp add: get_issues_eq listing_faults listing_repos listing_open)

lemma listing_flags:
  "pull_request demo_pull" "\<not> pull_request demo_issue" "\<not> pull_request old_issue"
  "created_at demo_issue = Aware 100" "created_at old_issue = Aware 10"
  by (simp_all add: demo_pull_def demo_issue_def old_issue_def)

text \<open>A second call of \<open>AssignIssue._run\<close>, and trackers that change their answers.\<close>

lemma lookup_issue_repos: "repos ta = repos tr \<Longrightarrow> lookup_issue ta = lookup_issue tr"
  by (simp add: lookup_issue_def fun_eq_iff)

lemma update_issue_same:
  assumes "\<And>j. f j = j"
  shows "update_issue repository n f tr = tr"
proof -
  have "(\<lambda>i. if number i = n then f i else i) = (\<lambda>i. i)"
    by (simp add: fun_eq_iff assms)
  then show ?thesis
    by (simp add: update_issue_def map_upd_triv split: option.splits)
qed

lemma union_list_Nil [simp]: "union_list old [] = old"
  by (simp add: union_list_def)

lemma AssignIssue_run_unreachable:
  assumes "\<not> no_token (os_getenv environ (S ''GITHUB_TOKEN''))"
      and "faults tr (GetRepo repository) = Some (Exception msg)"
  shows "AssignIssue_run py environ tr repository n assignees =
           (Failure (S ''Error assigning issue: '' @ msg),
            tr\<lparr>log := log tr @ [GetRepo repository]\<rparr>)"
  using assms
  by (simp add: AssignIssue_run_def AssignIssue_try_def and_then_def get_repo_eq)

lemma lookup_issue_faults [simp]: "lookup_issue (tr\<lparr>faults := f\<rparr>) = lookup_issue tr"
  by (simp add: lookup_issue_def fun_eq_iff)

lemma assignable_of_faults [simp]: "assignable_of (tr\<lparr>faults := f\<rparr>) = assignable_of tr"
  by (simp add: assignable_of_def fun_eq_iff)

subsection \<open>Missing credential\<close>

text \<open>
  C3: when \<open>GITHUB_TOKEN\<close> is absent from the environment, each of the four tools
  returns the credential-missing failure and hands the tracker back as it was: no
  request was sent, so its log and its data are unchanged.
\<close>

theorem credential_missing:
  assumes "os_getenv environ (S ''GITHUB_TOKEN'') = None"
  shows "GetNewIssues_run py environ tr repository since =
           (Failure (S ''Error: GITHUB_TOKEN environment variable is not set.''), tr) \<and>
         AddLabelToIssue_run py environ tr repository issue_number labels =
           (Failure (S ''Error: GITHUB_TOKEN environment variable is not set.''), tr) \<and>
         AssignIssue_run py environ tr repository issue_number assignees =
           (Failure (S ''Error: GITHUB_TOKEN environment variable is not set.''), tr) \<and>
         CommentOnIssue_run environ tr repository issue_number comment =
           (Failure (S ''Error: GITHUB_TOKEN environment variable is not set.''), tr)"
  using assms
  by (simp add: GetNewIssues_run_def AddLabelToIssue_run_def AssignIssue_run_def
      CommentOnIssue_run_def no_token_def token_not_set_def)

theorem credential_missing_witness:
  "os_getenv Map.empty (S ''GITHUB_TOKEN'') = None \<and>
   GetNewIssues_run demo_py Map.empty demo_tracker (S ''octocat/Hello-World'') [] =
     (Failure (S ''Error: GITHUB_TOKEN environment variable is not set.''), demo_tracker) \<and>
   AddLabelToIssue_run demo_py Map.empty demo_tracker (S ''octocat/Hello-World'') 1 [S ''bug''] =
     (Failure (S ''Error: GITHUB_TOKEN environment variable is not set.''), demo_tracker) \<and>
   AssignIssue_run demo_py Map.empty demo_tracker (S ''octocat/Hello-World'') 1 [S ''alice''] =
     (Failure (S ''Error: GITHUB_TOKEN environment variable is not set.''), demo_tracker) \<and>
   CommentOnIssue_run Map.empty demo_tracker (S ''octocat/Hello-World'') 1 (S ''hello'') =
     (Failure (S ''Error: GITHUB_TOKEN environment variable is not set.''), demo_tracker)"
proof -
  have h: "os_getenv Map.empty (S ''GITHUB_TOKEN'') = None"
    by (simp add: os_getenv_def)
  show ?thesis
    using h credential_missing [OF h, of demo_py demo_tracker "S ''octocat/Hello-World''" "[]" 1
        "[S ''bug'']" "[S ''alice'']" "S ''hello''"]
    by simp
qed

text \<open>
  C10: in \<open>CommentOnIssue._run\<close> the credential check comes first: without a token, an
  empty or whitespace-only comment gets the credential-missing failure, not the
  empty-comment one.
\<close>

theorem credential_before_body:
  assumes "os_getenv environ (S ''GITHUB_TOKEN'') = None"
      and "\<forall>c \<in> set comment. isspace c"
  shows "fst (CommentOnIssue_run environ tr repository issue_number comment) =
           Failure (S ''Error: GITHUB_TOKEN environment variable is not set.'') \<and>
         fst (CommentOnIssue_run environ tr repository issue_number comment) \<noteq>
           Failure (S ''Error: Comment cannot be empty.'')"
  using assms(1)
  by (simp add: CommentOnIssue_run_def no_token_def token_not_set_def S_def)

theorem credential_before_body_witness:
  "os_getenv Map.empty (S ''GITHUB_TOKEN'') = None \<and>
   isspace 32 \<and> isspace 9 \<and> isspace 10 \<and>
   fst (CommentOnIssue_run Map.empty demo_tracker (S ''octocat/Hello-World'') 1 [32, 9, 10]) =
     Failure (S ''Error: GITHUB_TOKEN environment variable is not set.'') \<and>
   fst (CommentOnIssue_run Map.empty demo_tracker (S ''octocat/Hello-World'') 1 [32, 9, 10]) \<noteq>
     Failure (S ''Error: Comment cannot be empty.'')"
proof -
  have h1: "os_getenv Map.empty (S ''GITHUB_TOKEN'') = None"
    by (simp add: os_getenv_def)
  have sp: "isspace 32 \<and> isspace 9 \<and> isspace 10"
    by (simp add: isspace_def)
  then have h2: "\<forall>c \<in> set [32, 9, 10]. isspace c"
    by simp
  show ?thesis
    using h1 sp credential_before_body [OF h1 h2, of demo_tracker "S ''octocat/Hello-World''" 1]
    by blast
qed

subsection \<open>Posting a comment\<close>

text \<open>
  C4: a comment that is empty or made of whitespace only is never sent: the tracker
  is handed back unchanged (no request, hence no write), and with a token in the
  environment the tool returns the empty-comment validation failure.
\<close>

theorem blank_comment_rejected:
  assumes "\<forall>c \<in> set comment. isspace c"
  shows "snd (CommentOnIssue_run environ tr repository issue_number comment) = tr \<and>
         (\<forall>token. os_getenv environ (S ''GITHUB_TOKEN'') = Some token \<and> token \<noteq> [] \<longrightarrow>
            fst (CommentOnIssue_run environ tr repository issue_number comment) =
              Failure (S ''Error: Comment cannot be empty.''))"
  using assms
  by (auto simp: CommentOnIssue_run_def no_token_def strip_empty_iff)

theorem blank_comment_rejected_witness:
  "isspace 32 \<and> isspace 9 \<and> isspace 10 \<and>
   os_getenv demo_environ (S ''GITHUB_TOKEN'') = Some (S ''token'') \<and> S ''token'' \<noteq> [] \<and>
   snd (CommentOnIssue_run demo_environ demo_tracker (S ''octocat/Hello-World'') 1 [32, 9, 10]) =
     demo_tracker \<and>
   fst (CommentOnIssue_run demo_environ demo_tracker (S ''octocat/Hello-World'') 1 [32, 9, 10]) =
     Failure (S ''Error: Comment cannot be empty.'')"
proof -
  have sp: "isspace 32 \<and> isspace 9 \<and> isspace 10"
    by (simp add: isspace_def)
  then have h: "\<forall>c \<in> set [32, 9, 10]. isspace c"
    by simp
  have t: "os_getenv demo_environ (S ''GITHUB_TOKEN'') = Some (S ''token'') \<and> S ''token'' \<noteq> []"
    by (simp add: os_getenv_def demo_environ_def S_def)
  show ?thesis
    using sp t blank_comment_rejected [OF h, of demo_environ demo_tracker "S ''octocat/Hello-World''" 1]
    by blast
qed

text \<open>
  C5: the text of a successful \<open>CommentOnIssue._run\<close> ends with the preview: the first
  100 characters of the comment followed by \<open>...\<close> when the comment is longer than 100
  characters, and the comment itself otherwise.
\<close>

theorem comment_preview_text:
  assumes "CommentOnIssue_run environ tr repository issue_number comment = (Success t, tr')"
  shows "\<exists>preview.
           t = check_mark @ S '' Successfully added comment to issue #'' @ str_int issue_number @
               S ''.'' @ nl @ S ''Comment preview: '' @ preview \<and>
           (if length comment > 100
            then preview = take 100 comment @ S ''...'' \<and> length (take 100 comment) = 100
            else preview = comment)"
  using CommentOnIssue_run_Success [OF assms]
  by (simp add: comment_added_def comment_preview_def)

theorem comment_preview_text_witness:
  "fst (CommentOnIssue_run demo_environ demo_tracker (S ''octocat/Hello-World'') 1 (replicate 250 120)) =
     Success (check_mark @ S '' Successfully added comment to issue #'' @ str_int 1 @ S ''.'' @ nl @
              S ''Comment preview: '' @ replicate 100 120 @ S ''...'') \<and>
   length (replicate 100 (120::nat) @ S ''...'') = 103"
proof -
  let ?run = "CommentOnIssue_run demo_environ demo_tracker (S ''octocat/Hello-World'') 1 (replicate 250 120)"
  have f: "fst ?run = Success (comment_added 1 (replicate 250 120))"
    by (simp add: CommentOnIssue_run_def CommentOnIssue_try_def os_getenv_def no_token_def
        demo_environ_def demo_tracker_def demo_issue_def S_def strip_def isspace_def
        remote_defs get_repo_def get_issue_def create_comment_def lookup_issue_def update_issue_def)
  from f have run: "?run = (Success (comment_added 1 (replicate 250 120)), snd ?run)"
    by (metis prod.collapse)
  from comment_preview_text [OF run] obtain preview where
    t: "comment_added 1 (replicate 250 120) =
          check_mark @ S '' Successfully added comment to issue #'' @ str_int 1 @ S ''.'' @ nl @
          S ''Comment preview: '' @ preview"
    and p: "preview = take 100 (replicate 250 120) @ S ''...''"
    by auto
  have "preview = replicate 100 120 @ S ''...''"
    using p by simp
  with t have t': "comment_added 1 (replicate 250 120) =
          check_mark @ S '' Successfully added comment to issue #'' @ str_int 1 @ S ''.'' @ nl @
          S ''Comment preview: '' @ replicate 100 120 @ S ''...''"
    by (simp only:)
  show ?thesis
  proof (intro conjI)
    show "fst ?run =
      Success (check_mark @ S '' Successfully added comment to issue #'' @ str_int 1 @ S ''.'' @ nl @
               S ''Comment preview: '' @ replicate 100 120 @ S ''...'')"
      using f t' by (simp only:)
    show "length (replicate 100 (120::nat) @ S ''...'') = 103"
      by (simp add: S_def)
  qed
qed

subsection \<open>Merging labels\<close>

text \<open>
  C1: \<open>AddLabelToIssue._run\<close> only adds labels: whatever happens, the issue keeps every
  label it had.  With a token in the environment and a tracker that answers every
  request, if every requested label that the issue lacks is in the repository's
  catalog, the issue's labels afterwards are exactly the old ones together with the
  requested ones.
\<close>

theorem labels_merged:
  assumes "lookup_issue tr repository issue_number = Some issue"
  shows "\<exists>issue'.
           lookup_issue (snd (AddLabelToIssue_run py environ tr repository issue_number labels))
             repository issue_number = Some issue' \<and>
           set (label_names issue) \<subseteq> set (label_names issue') \<and>
           ((\<exists>token. os_getenv environ (S ''GITHUB_TOKEN'') = Some token \<and> token \<noteq> []) \<and>
            (\<forall>c. faults tr c = None) \<and>
            (\<forall>label \<in> set labels. label \<notin> set (label_names issue) \<longrightarrow>
                 label \<in> set (catalog_of tr repository))
            \<longrightarrow> set (label_names issue') = set (label_names issue) \<union> set labels)"
proof -
  let ?run = "AddLabelToIssue_run py environ tr repository issue_number labels"
  let ?names = "filter (\<lambda>label. label \<notin> set (label_names issue)) labels"
  let ?f = "\<lambda>j. j\<lparr>label_names := union_list (label_names j) ?names\<rparr>"
  let ?cond = "(\<exists>token. os_getenv environ (S ''GITHUB_TOKEN'') = Some token \<and> token \<noteq> []) \<and>
            (\<forall>c. faults tr c = None) \<and>
            (\<forall>label \<in> set labels. label \<notin> set (label_names issue) \<longrightarrow>
                 label \<in> set (catalog_of tr repository))"
  have upd: "lookup_issue ((update_issue repository issue_number ?f tr)\<lparr>log := l\<rparr>) repository issue_number
        = Some (?f issue)" for l
    using assms by (simp add: lookup_issue_update)
  from AddLabelToIssue_run_effect [OF assms] obtain l where
    eff: "snd ?run = tr\<lparr>log := l\<rparr> \<or> snd ?run = (update_issue repository issue_number ?f tr)\<lparr>log := l\<rparr>"
    by blast
  show ?thesis
  proof (cases "?cond \<and> ?names \<noteq> []")
    case True
    then have "snd ?run = (update_issue repository issue_number ?f tr)
           \<lparr>log := log tr @ [GetRepo repository, GetIssue repository issue_number, GetLabels repository,
                AddToLabels repository issue_number ?names]\<rparr>"
      using AddLabelToIssue_run_added [of environ _ tr repository issue_number issue labels py] assms
      by auto
    then have "lookup_issue (snd ?run) repository issue_number = Some (?f issue)"
      using upd by simp
    then show ?thesis
      by (auto simp: set_union_list)
  next
    case False
    from eff show ?thesis
    proof
      assume "snd ?run = tr\<lparr>log := l\<rparr>"
      then have "lookup_issue (snd ?run) repository issue_number = Some issue"
        using assms by simp
      with False show ?thesis
        by (auto simp: filter_empty_conv)
    next
      assume "snd ?run = (update_issue repository issue_number ?f tr)\<lparr>log := l\<rparr>"
      then have "lookup_issue (snd ?run) repository issue_number = Some (?f issue)"
        using upd by simp
      with False show ?thesis
        by (auto simp: set_union_list filter_empty_conv)
    qed
  qed
qed


theorem labels_merged_witness:
  "lookup_issue demo_tracker (S ''octocat/Hello-World'') 1 = Some demo_issue \<and>
   label_names demo_issue = [] \<and>
   (\<exists>issue'.
      lookup_issue (snd (AddLabelToIssue_run demo_py demo_environ demo_tracker
                           (S ''octocat/Hello-World'') 1 [S ''bug'']))
        (S ''octocat/Hello-World'') 1 = Some issue' \<and>
      set (label_names issue') = {S ''bug''})"
proof -
  from labels_merged [OF demo_lookup, of demo_py demo_environ "[S ''bug'']"]
  obtain issue' where
    i: "lookup_issue (snd (AddLabelToIssue_run demo_py demo_environ demo_tracker
                           (S ''octocat/Hello-World'') 1 [S ''bug'']))
          (S ''octocat/Hello-World'') 1 = Some issue'"
    and u: "(\<exists>token. os_getenv demo_environ (S ''GITHUB_TOKEN'') = Some token \<and> token \<noteq> []) \<and>
            (\<forall>c. faults demo_tracker c = None) \<and>
            (\<forall>label \<in> set [S ''bug'']. label \<notin> set (label_names demo_issue) \<longrightarrow>
                 label \<in> set (catalog_of demo_tracker (S ''octocat/Hello-World'')))
            \<longrightarrow> set (label_names issue') = set (label_names demo_issue) \<union> set [S ''bug'']"
    by blast
  have "set (label_names issue') = set (label_names demo_issue) \<union> set [S ''bug'']"
    using u demo_token demo_faults by (simp add: demo_catalog)
  then have "set (label_names issue') = {S ''bug''}"
    by (simp add: demo_labels)
  with i show ?thesis
    using demo_lookup demo_labels by blast
qed

text \<open>
  C2: when a requested label that the issue lacks is missing from the catalog (token
  present, the three reads answered), \<open>AddLabelToIssue._run\<close> fails with the
  validation text that prints exactly the requested labels that are neither on the
  issue nor in the catalog, and the tracker is handed back with nothing but the three
  reads added to its log: no write was sent, the issue and the catalog are unchanged.
\<close>

theorem invalid_labels_rejected:
  assumes token: "os_getenv environ (S ''GITHUB_TOKEN'') = Some token" "token \<noteq> []"
      and answers: "faults tr (GetRepo repository) = None"
        "faults tr (GetIssue repository issue_number) = None"
        "faults tr (GetLabels repository) = None"
      and issue: "lookup_issue tr repository issue_number = Some issue"
      and invalid: "label \<in> set labels" "label \<notin> set (label_names issue)"
        "label \<notin> set (catalog_of tr repository)"
  shows "AddLabelToIssue_run py environ tr repository issue_number labels =
           (Failure (S ''Error: Labels '' @
                     repr_list py (filter (\<lambda>l. l \<notin> set (label_names issue) \<and>
                                               l \<notin> set (catalog_of tr repository)) labels) @
                     S '' do not exist in the repository. Available labels: '' @
                     repr_list py (take 10 (catalog_of tr repository)) @ S ''...''),
            tr\<lparr>log := log tr @ [GetRepo repository, GetIssue repository issue_number,
                                 GetLabels repository]\<rparr>)"
proof -
  from issue obtain r where r: "repos tr repository = Some r"
    using lookup_issue_repo by fastforce
  have to_add: "filter (\<lambda>l. l \<notin> set (label_names issue)) labels \<noteq> []"
    using invalid by (auto simp: filter_empty_conv)
  have inv: "filter (\<lambda>l. l \<notin> set (label_names issue) \<and> l \<notin> set (label_catalog r)) labels \<noteq> []"
    using invalid r by (auto simp: filter_empty_conv catalog_of_Some)
  show ?thesis
    using token answers issue r to_add inv
    by (simp add: AddLabelToIssue_run_def AddLabelToIssue_try_def no_token_def and_then_def returns_def
        get_repo_eq get_issue_eq get_labels_eq Let_def labels_do_not_exist_def catalog_of_Some)
qed

theorem invalid_labels_rejected_witness:
  "os_getenv demo_environ (S ''GITHUB_TOKEN'') = Some (S ''token'') \<and>
   lookup_issue demo_tracker (S ''octocat/Hello-World'') 1 = Some demo_issue \<and>
   S ''ghost-label'' \<notin> set (label_names demo_issue) \<and>
   S ''ghost-label'' \<notin> set (catalog_of demo_tracker (S ''octocat/Hello-World'')) \<and>
   AddLabelToIssue_run demo_py demo_environ demo_tracker (S ''octocat/Hello-World'') 1
       [S ''bug'', S ''ghost-label''] =
     (Failure (S ''Error: Labels ['' @ [39] @ S ''ghost-label'' @ [39] @
               S ''] do not exist in the repository. Available labels: ['' @ [39] @ S ''bug'' @ [39] @
               S '']...''),
      demo_tracker\<lparr>log := [GetRepo (S ''octocat/Hello-World''), GetIssue (S ''octocat/Hello-World'') 1,
                             GetLabels (S ''octocat/Hello-World'')]\<rparr>)"
proof -
  have g1: "S ''ghost-label'' \<in> set [S ''bug'', S ''ghost-label'']"
    by simp
  have g2: "S ''ghost-label'' \<notin> set (label_names demo_issue)"
    by (simp add: demo_labels)
  have g3: "S ''ghost-label'' \<notin> set (catalog_of demo_tracker (S ''octocat/Hello-World''))"
    unfolding demo_catalog by (simp add: S_def)
  have f: "filter (\<lambda>l. l \<notin> set (label_names demo_issue) \<and>
                      l \<notin> set (catalog_of demo_tracker (S ''octocat/Hello-World'')))
             [S ''bug'', S ''ghost-label''] = [S ''ghost-label'']"
    unfolding demo_labels demo_catalog by (simp add: S_def)
  have l: "log demo_tracker = []"
    by (simp add: demo_tracker_def)
  have r: "repr_list demo_py = demo_repr"
    by (simp add: demo_py_def)
  have "AddLabelToIssue_run demo_py demo_environ demo_tracker (S ''octocat/Hello-World'') 1
       [S ''bug'', S ''ghost-label''] =
     (Failure (S ''Error: Labels ['' @ [39] @ S ''ghost-label'' @ [39] @
               S ''] do not exist in the repository. Available labels: ['' @ [39] @ S ''bug'' @ [39] @
               S '']...''),
      demo_tracker\<lparr>log := [GetRepo (S ''octocat/Hello-World''), GetIssue (S ''octocat/Hello-World'') 1,
                             GetLabels (S ''octocat/Hello-World'')]\<rparr>)"
    unfolding invalid_labels_rejected [OF demo_token demo_faults demo_faults demo_faults demo_lookup g1 g2 g3,
        of demo_py]
    unfolding f
    unfolding l r demo_catalog demo_repr_def
    by (simp add: S_def)
  then show ?thesis
    using demo_token(1) demo_lookup g2 g3 by blast
qed

subsection \<open>Assigning\<close>

text \<open>
  C8, as the code has it: after a call of \<open>AssignIssue._run\<close> that returned a success
  or a no-op, the issue has every requested assignee, and a second call with the same
  input, on a tracker with the same data, leaves the tracker's data and so the issue's
  assignees as the first call left them; it returns the no-op text when the tracker
  answers its two reads.
\<close>

theorem assign_twice:
  assumes first: "AssignIssue_run py environ tr repository issue_number assignees = (o1, tr1)"
      and went: "o1 = Success t \<or> o1 = NoOp t"
      and later: "repos tr1' = repos tr1"
      and second: "AssignIssue_run py environ tr1' repository issue_number assignees = (o2, tr2)"
  shows "repos tr2 = repos tr1 \<and>
         lookup_issue tr2 repository issue_number = lookup_issue tr1 repository issue_number \<and>
         (\<exists>i. lookup_issue tr1 repository issue_number = Some i \<and>
              set assignees \<subseteq> set (assignee_logins i) \<and>
              (faults tr1' (GetRepo repository) = None \<and>
               faults tr1' (GetIssue repository issue_number) = None \<longrightarrow>
               o2 = NoOp (info_mark @ S '' All assignees already assigned to issue #'' @
                          str_int issue_number @ S ''.'' @ nl @
                          S ''Current assignees: '' @ repr_list py (assignee_logins i))))"
proof -
  let ?names = "\<lambda>i. filter (\<lambda>assignee. assignee \<notin> set (assignee_logins i)) assignees"
  let ?f = "\<lambda>i j. j\<lparr>assignee_logins := union_list (assignee_logins j) (?names i)\<rparr>"
  have lk: "lookup_issue tr1' = lookup_issue tr1"
    using later by (rule lookup_issue_repos)
  from first obtain i where tok: "\<not> no_token (os_getenv environ (S ''GITHUB_TOKEN''))"
    and i: "lookup_issue tr1 repository issue_number = Some i"
    and sub: "set assignees \<subseteq> set (assignee_logins i)"
  proof (cases rule: AssignIssue_run_cases)
    case (fail x l)
    with went show ?thesis by auto
  next
    case (noop i l)
    then have "lookup_issue tr1 repository issue_number = Some i"
      by (simp add: fetched_def)
    with noop(1,3) show ?thesis using that by blast
  next
    case (added i x l)
    then have "lookup_issue tr1 repository issue_number = Some (?f i i)"
      by (simp add: fetched_def lookup_issue_update)
    moreover have "set assignees \<subseteq> set (assignee_logins (?f i i))"
      by (auto simp: set_union_list)
    ultimately show ?thesis using added(1) that by blast
  qed
  have names: "?names i = []"
    using sub by (auto simp: filter_empty_conv)
  from second have kept: "repos tr2 = repos tr1'"
  proof (cases rule: AssignIssue_run_cases)
    case (fail x l)
    then show ?thesis by simp
  next
    case (noop i2 l)
    then show ?thesis by simp
  next
    case (added i2 x l)
    then have "lookup_issue tr1' repository issue_number = Some i2"
      by (simp add: fetched_def)
    with lk i have "i2 = i" by simp
    with added(4) names have "tr2 = (update_issue repository issue_number (\<lambda>j. j) tr1')\<lparr>log := l\<rparr>"
      by simp
    then show ?thesis
      by (simp add: update_issue_same)
  qed
  have again: "o2 = NoOp (already_assigned py issue_number (assignee_logins i))"
    if "faults tr1' (GetRepo repository) = None"
      "faults tr1' (GetIssue repository issue_number) = None"
  proof -
    from that lk i have "fetched tr1' repository issue_number i"
      by (simp add: fetched_def)
    from AssignIssue_run_noop [OF tok this sub, of py] second show ?thesis
      by simp
  qed
  from kept later have "repos tr2 = repos tr1"
    by simp
  moreover from this have "lookup_issue tr2 = lookup_issue tr1"
    by (rule lookup_issue_repos)
  ultimately show ?thesis
    using i sub again by (auto simp: already_assigned_def)
qed

theorem assign_twice_witness:
  "fst (AssignIssue_run demo_py demo_environ demo_tracker (S ''octocat/Hello-World'') 1
          [S ''alice'']) =
     Success (check_mark @ S '' Successfully assigned '' @ demo_repr [S ''alice''] @
              S '' to issue #'' @ str_int 1 @ S ''.'' @ nl @
              S ''Current assignees: '' @ demo_repr [S ''alice'']) \<and>
   fst (AssignIssue_run demo_py demo_environ
          (snd (AssignIssue_run demo_py demo_environ demo_tracker (S ''octocat/Hello-World'') 1
                  [S ''alice'']))
          (S ''octocat/Hello-World'') 1 [S ''alice'']) =
     NoOp (info_mark @ S '' All assignees already assigned to issue #'' @ str_int 1 @ S ''.'' @ nl @
           S ''Current assignees: '' @ demo_repr [S ''alice''])"
proof -
  let ?R = "S ''octocat/Hello-World''"
  let ?run1 = "AssignIssue_run demo_py demo_environ demo_tracker ?R 1 [S ''alice'']"
  let ?run2 = "AssignIssue_run demo_py demo_environ (snd ?run1) ?R 1 [S ''alice'']"
  let ?f = "\<lambda>j. j\<lparr>assignee_logins := union_list (assignee_logins j) [S ''alice'']\<rparr>"
  let ?t = "assignees_added demo_py [S ''alice''] 1
              (union_list (assignee_logins demo_issue) [S ''alice''])"
  have names: "[S ''alice''] =
      filter (\<lambda>assignee. assignee \<notin> set (assignee_logins demo_issue)) [S ''alice'']"
    by (simp add: demo_assignees)
  have known: "set [S ''alice''] \<subseteq> set (assignable_of demo_tracker ?R)"
    unfolding demo_assignable by simp
  have first: "?run1 =
      (Success ?t,
       (update_issue ?R 1 ?f demo_tracker)
       \<lparr>log := log demo_tracker @ [GetRepo ?R, GetIssue ?R 1, AddToAssignees ?R 1 [S ''alice'']]\<rparr>)"
    by (rule AssignIssue_run_added [OF demo_has_token demo_fetched names _ demo_faults known]) simp
  have look: "lookup_issue (snd ?run1) ?R 1 = Some (?f demo_issue)"
    unfolding first snd_conv by (simp add: lookup_issue_update demo_lookup)
  have answered: "faults (snd ?run1) (GetRepo ?R) = None \<and> faults (snd ?run1) (GetIssue ?R 1) = None"
    unfolding first snd_conv by (simp add: demo_faults)
  have c1: "?run1 = (Success ?t, snd ?run1)"
    unfolding first by simp
  have c2: "?run2 = (fst ?run2, snd ?run2)"
    by simp
  have went: "Success ?t = Success ?t \<or> Success ?t = NoOp ?t"
    by simp
  from assign_twice [OF c1 went refl c2] answered obtain i where
    i: "lookup_issue (snd ?run1) ?R 1 = Some i"
    and o2: "fst ?run2 =
       NoOp (info_mark @ S '' All assignees already assigned to issue #'' @ str_int 1 @ S ''.'' @ nl @
             S ''Current assignees: '' @ repr_list demo_py (assignee_logins i))"
    by blast
  from i look have "i = ?f demo_issue"
    by simp
  then have "assignee_logins i = [S ''alice'']"
    by (simp add: union_list_def demo_assignees)
  with o2 have second: "fst ?run2 =
       NoOp (info_mark @ S '' All assignees already assigned to issue #'' @ str_int 1 @ S ''.'' @ nl @
             S ''Current assignees: '' @ demo_repr [S ''alice''])"
    by (simp add: demo_py_def)
  have "?t = check_mark @ S '' Successfully assigned '' @ demo_repr [S ''alice''] @
              S '' to issue #'' @ str_int 1 @ S ''.'' @ nl @
              S ''Current assignees: '' @ demo_repr [S ''alice'']"
    by (simp add: assignees_added_def demo_py_def union_list_def demo_assignees)
  then have "fst ?run1 =
     Success (check_mark @ S '' Successfully assigned '' @ demo_repr [S ''alice''] @
              S '' to issue #'' @ str_int 1 @ S ''.'' @ nl @
              S ''Current assignees: '' @ demo_repr [S ''alice''])"
    unfolding first by simp
  with second show ?thesis
    by (intro conjI)
qed

text \<open>
  The claim as stated promises the same for every input.  A batch that the tracker
  rejects is refused both times; a call that fails while the tracker is out of reach
  adds nobody, and the same call adds the assignee once the tracker answers again, so
  two calls do not leave what one call left; and after a success a second call that
  finds the tracker out of reach returns a failure.
\<close>

theorem assign_twice_counterexample:
  "fst (AssignIssue_run demo_py demo_environ demo_tracker (S ''octocat/Hello-World'') 1 [S ''mallory'']) =
     Failure (S ''Error: One or more assignees (['' @ [39] @ S ''mallory'' @ [39] @
              S '']) may not have access to the repository or do not exist.'') \<and>
   fst (AssignIssue_run demo_py demo_environ
          (snd (AssignIssue_run demo_py demo_environ demo_tracker (S ''octocat/Hello-World'') 1
                  [S ''mallory'']))
          (S ''octocat/Hello-World'') 1 [S ''mallory'']) =
     Failure (S ''Error: One or more assignees (['' @ [39] @ S ''mallory'' @ [39] @
              S '']) may not have access to the repository or do not exist.'') \<and>
   fst (AssignIssue_run demo_py demo_environ (cut_off demo_tracker) (S ''octocat/Hello-World'') 1
          [S ''alice'']) =
     Failure (S ''Error assigning issue: Connection reset by peer'') \<and>
   map_option assignee_logins
     (lookup_issue
        (snd (AssignIssue_run demo_py demo_environ (cut_off demo_tracker)
                (S ''octocat/Hello-World'') 1 [S ''alice'']))
        (S ''octocat/Hello-World'') 1) = Some [] \<and>
   map_option assignee_logins
     (lookup_issue
        (snd (AssignIssue_run demo_py demo_environ
                (reachable (snd (AssignIssue_run demo_py demo_environ (cut_off demo_tracker)
                                   (S ''octocat/Hello-World'') 1 [S ''alice''])))
                (S ''octocat/Hello-World'') 1 [S ''alice'']))
        (S ''octocat/Hello-World'') 1) = Some [S ''alice''] \<and>
   fst (AssignIssue_run demo_py demo_environ
          (cut_off (snd (AssignIssue_run demo_py demo_environ demo_tracker
                           (S ''octocat/Hello-World'') 1 [S ''alice''])))
          (S ''octocat/Hello-World'') 1 [S ''alice'']) =
     Failure (S ''Error assigning issue: Connection reset by peer'')"
proof -
  let ?R = "S ''octocat/Hello-World''"
  let ?rejected = "S ''Error: One or more assignees (['' @ [39] @ S ''mallory'' @ [39] @
              S '']) may not have access to the repository or do not exist.''"
  let ?reset = "S ''Error assigning issue: Connection reset by peer''"
  let ?tr1 = "demo_tracker\<lparr>log := log demo_tracker @
                [GetRepo ?R, GetIssue ?R 1, AddToAssignees ?R 1 [S ''mallory'']]\<rparr>"
  have names: "[S ''mallory''] =
      filter (\<lambda>assignee. assignee \<notin> set (assignee_logins demo_issue)) [S ''mallory'']"
    by (simp add: demo_assignees)
  have unknown: "\<not> set [S ''mallory''] \<subseteq> set (assignable_of demo_tracker ?R)"
    unfolding demo_assignable by (simp add: S_def)
  have msg: "assignees_rejected demo_py [S ''mallory''] = ?rejected"
    by (simp add: assignees_rejected_def demo_py_def demo_repr_def S_def)
  have first: "AssignIssue_run demo_py demo_environ demo_tracker ?R 1 [S ''mallory''] =
      (Failure (assignees_rejected demo_py [S ''mallory'']), ?tr1)"
    by (rule AssignIssue_run_rejected [OF demo_has_token demo_fetched names _ demo_faults unknown]) simp
  have second: "AssignIssue_run demo_py demo_environ ?tr1 ?R 1 [S ''mallory''] =
      (Failure (assignees_rejected demo_py [S ''mallory'']),
       ?tr1\<lparr>log := log ?tr1 @ [GetRepo ?R, GetIssue ?R 1, AddToAssignees ?R 1 [S ''mallory'']]\<rparr>)"
    by (rule AssignIssue_run_rejected [where i = demo_issue])
       (simp_all add: demo_has_token demo_fetched demo_assignees demo_faults unknown [simplified])
  have a: "fst (AssignIssue_run demo_py demo_environ demo_tracker ?R 1 [S ''mallory'']) =
      Failure ?rejected"
    unfolding first fst_conv msg by simp
  have b: "fst (AssignIssue_run demo_py demo_environ
          (snd (AssignIssue_run demo_py demo_environ demo_tracker ?R 1 [S ''mallory'']))
          ?R 1 [S ''mallory'']) = Failure ?rejected"
    unfolding first snd_conv second fst_conv msg by simp
  let ?down = "(cut_off demo_tracker)\<lparr>log := log (cut_off demo_tracker) @ [GetRepo ?R]\<rparr>"
  have lost: "faults (cut_off tr) c = Some (Exception (S ''Connection reset by peer''))" for tr c
    by (simp add: cut_off_def connection_reset_def)
  have third: "AssignIssue_run demo_py demo_environ (cut_off demo_tracker) ?R 1 [S ''alice''] =
      (Failure (S ''Error assigning issue: '' @ S ''Connection reset by peer''), ?down)"
    by (rule AssignIssue_run_unreachable [OF demo_has_token lost])
  have c: "fst (AssignIssue_run demo_py demo_environ (cut_off demo_tracker) ?R 1 [S ''alice'']) =
      Failure ?reset"
    unfolding third fst_conv by (simp add: S_def)
  have down_look: "lookup_issue ?down ?R 1 = Some demo_issue"
    by (simp add: cut_off_def demo_lookup)
  have d: "map_option assignee_logins
     (lookup_issue (snd (AssignIssue_run demo_py demo_environ (cut_off demo_tracker) ?R 1 [S ''alice'']))
        ?R 1) = Some []"
    unfolding third snd_conv down_look by (simp add: demo_assignees)
  let ?f = "\<lambda>j. j\<lparr>assignee_logins := union_list (assignee_logins j) [S ''alice'']\<rparr>"
  have alice: "[S ''alice''] =
      filter (\<lambda>assignee. assignee \<notin> set (assignee_logins demo_issue)) [S ''alice'']"
    by (simp add: demo_assignees)
  have up: "fetched (reachable ?down) ?R 1 demo_issue"
    by (simp add: fetched_def reachable_def cut_off_def demo_lookup)
  have up_faults: "faults (reachable ?down) (AddToAssignees ?R 1 [S ''alice'']) = None"
    by (simp add: reachable_def)
  have up_known: "set [S ''alice''] \<subseteq> set (assignable_of (reachable ?down) ?R)"
    by (simp add: reachable_def cut_off_def demo_assignable)
  have fourth: "AssignIssue_run demo_py demo_environ (reachable ?down) ?R 1 [S ''alice''] =
      (Success (assignees_added demo_py [S ''alice''] 1
                  (union_list (assignee_logins demo_issue) [S ''alice''])),
       (update_issue ?R 1 ?f (reachable ?down))
       \<lparr>log := log (reachable ?down) @
                [GetRepo ?R, GetIssue ?R 1, AddToAssignees ?R 1 [S ''alice'']]\<rparr>)"
    by (rule AssignIssue_run_added [OF demo_has_token up alice _ up_faults up_known]) simp
  have up_look: "lookup_issue (reachable ?down) ?R 1 = Some demo_issue"
    using up by (simp add: fetched_def)
  have e: "map_option assignee_logins
     (lookup_issue
        (snd (AssignIssue_run demo_py demo_environ
                (reachable (snd (AssignIssue_run demo_py demo_environ (cut_off demo_tracker)
                                   ?R 1 [S ''alice''])))
                ?R 1 [S ''alice'']))
        ?R 1) = Some [S ''alice'']"
    unfolding third snd_conv fourth
    by (simp add: lookup_issue_update up_look union_list_def demo_assignees)
  have fifth: "AssignIssue_run demo_py demo_environ
          (cut_off (snd (AssignIssue_run demo_py demo_environ demo_tracker ?R 1 [S ''alice''])))
          ?R 1 [S ''alice''] =
      (Failure (S ''Error assigning issue: '' @ S ''Connection reset by peer''),
       (cut_off (snd (AssignIssue_run demo_py demo_environ demo_tracker ?R 1 [S ''alice''])))
       \<lparr>log := log (cut_off (snd (AssignIssue_run demo_py demo_environ demo_tracker ?R 1
                                     [S ''alice'']))) @ [GetRepo ?R]\<rparr>)"
    by (rule AssignIssue_run_unreachable [OF demo_has_token lost])
  have f: "fst (AssignIssue_run demo_py demo_environ
          (cut_off (snd (AssignIssue_run demo_py demo_environ demo_tracker ?R 1 [S ''alice''])))
          ?R 1 [S ''alice'']) = Failure ?reset"
    unfolding fifth fst_conv by (simp add: S_def)
  from a b c d e f show ?thesis
    by (intro conjI)
qed

subsection \<open>Telling failures from successes\<close>

text \<open>
  C9, as the code has it: every failure text of the four tools starts with \<open>Error\<close>
  or with \<open>GitHub API Error: \<close>, and no success or no-op text starts with either,
  so the prefix alone tells a failure from a success.
\<close>

theorem outcomes_told_apart:
  "prefix_tells (fst (GetNewIssues_run py environ tr repository since)) \<and>
   prefix_tells (fst (AddLabelToIssue_run py environ tr repository issue_number labels)) \<and>
   prefix_tells (fst (AssignIssue_run py environ tr repository issue_number assignees)) \<and>
   prefix_tells (fst (CommentOnIssue_run environ tr repository issue_number comment))"
  by (simp add: prefix_tells_GetNewIssues prefix_tells_AddLabelToIssue prefix_tells_AssignIssue
      prefix_tells_CommentOnIssue)

text \<open>
  The marker is not always \<open>Error:\<close>, as the claim has it: listing the issues of a
  repository that does not exist fails with a text that starts with
  \<open>GitHub API Error: \<close>.
\<close>

theorem error_marker_counterexample:
  "fst (GetNewIssues_run demo_py demo_environ demo_tracker (S ''octocat/Missing'') []) =
     Failure (S ''GitHub API Error: 404 Not Found'') \<and>
   \<not> prefix (S ''Error:'') (S ''GitHub API Error: 404 Not Found'')"
proof -
  have f: "faults demo_tracker (GetRepo (S ''octocat/Missing'')) = None"
    by (rule demo_faults)
  have r: "repos demo_tracker (S ''octocat/Missing'') = None"
    by (simp add: demo_tracker_def S_def)
  have "GetNewIssues_try demo_py (S ''octocat/Missing'') [] demo_tracker =
          (Inl not_found, demo_tracker\<lparr>log := log demo_tracker @ [GetRepo (S ''octocat/Missing'')]\<rparr>)"
    unfolding GetNewIssues_try_def and_then_def get_repo_eq f r by simp
  then have "fst (GetNewIssues_run demo_py demo_environ demo_tracker (S ''octocat/Missing'') []) =
     Failure (api_error (S ''404 Not Found''))"
    using demo_has_token by (simp add: GetNewIssues_run_def not_found_def)
  moreover have "api_error (S ''404 Not Found'') = S ''GitHub API Error: 404 Not Found''"
    by (simp add: api_error_def S_def)
  moreover have "\<not> prefix (S ''Error:'') (S ''GitHub API Error: 404 Not Found'')"
    by (simp add: S_def)
  ultimately show ?thesis
    by simp
qed

subsection \<open>Listing issues\<close>

text \<open>
  C6: a listing returned by \<open>GetNewIssues._run\<close> is made from issues among the first
  20 that the tracker returns, in the tracker's order, which are the repository's open
  issues by creation time descending; none of the issues it is made from is a pull
  request.
\<close>

theorem listing_window:
  assumes "GetNewIssues_run py environ tr repository since = (Success t, tr')"
  shows "\<exists>r kept.
           repos tr repository = Some r \<and>
           subseq kept (take 20 (open_issues_desc r)) \<and>
           length kept \<le> 20 \<and>
           (\<forall>i \<in> set kept. \<not> pull_request i \<and> state i = S ''open'') \<and>
           sorted_wrt (\<lambda>a b. instant (created_at b) \<le> instant (created_at a)) (open_issues_desc r) \<and>
           set (open_issues_desc r) = {i \<in> set (issues r). state i = S ''open''} \<and>
           t = (if kept = [] then S ''No new issues found.''
                else found_issues (map (issue_data_of py) kept))"
  using assms
proof (cases rule: GetNewIssues_run_Success)
  case (1 r result)
  from 1(2) obtain kept where kept: "result = map (issue_data_of py) kept"
    "subseq kept (take 20 (open_issues_desc r))" "\<forall>i \<in> set kept. \<not> pull_request i"
    by (rule issue_loop_kept)
  from kept(2) have len: "length kept \<le> 20"
    using list_emb_length [of "(=)" kept "take 20 (open_issues_desc r)"] by simp
  have "set kept \<subseteq> set (open_issues_desc r)"
  proof
    fix x
    assume x: "x \<in> set kept"
    from list_emb_set [OF kept(2) x] obtain y where "y \<in> set (take 20 (open_issues_desc r))" "x = y"
      by blast
    then show "x \<in> set (open_issues_desc r)"
      by (auto dest: in_set_takeD)
  qed
  then have opn: "\<forall>i \<in> set kept. state i = S ''open''"
    by (auto simp: open_issues_desc_set)
  from 1(1,3) kept len opn show ?thesis
    using open_issues_desc_sorted [of r] open_issues_desc_set [of r]
    by (intro exI [of _ r] exI [of _ kept]) auto
qed

theorem listing_window_witness:
  "fst (GetNewIssues_run demo_py demo_environ listing_tracker (S ''octocat/Hello-World'') []) =
     Success (found_issues [issue_data_of demo_py demo_issue, issue_data_of demo_py old_issue]) \<and>
   (\<exists>r kept.
      repos listing_tracker (S ''octocat/Hello-World'') = Some r \<and>
      subseq kept (take 20 (open_issues_desc r)) \<and>
      length kept \<le> 20 \<and>
      (\<forall>i \<in> set kept. \<not> pull_request i \<and> state i = S ''open'') \<and>
      sorted_wrt (\<lambda>a b. instant (created_at b) \<le> instant (created_at a)) (open_issues_desc r) \<and>
      set (open_issues_desc r) = {i \<in> set (issues r). state i = S ''open''} \<and>
      found_issues [issue_data_of demo_py demo_issue, issue_data_of demo_py old_issue] =
        (if kept = [] then S ''No new issues found.''
         else found_issues (map (issue_data_of demo_py) kept)))"
proof -
  let ?run = "GetNewIssues_run demo_py demo_environ listing_tracker (S ''octocat/Hello-World'') []"
  have loop: "issue_loop demo_py [] [demo_pull, demo_issue, old_issue] [] =
      Inr [issue_data_of demo_py demo_issue, issue_data_of demo_py old_issue]"
    by (simp add: listing_flags)
  have f: "fst ?run =
      Success (found_issues [issue_data_of demo_py demo_issue, issue_data_of demo_py old_issue])"
    unfolding GetNewIssues_run_def listing_try loop using demo_has_token by simp
  then have run: "?run =
      (Success (found_issues [issue_data_of demo_py demo_issue, issue_data_of demo_py old_issue]),
       snd ?run)"
    by (metis prod.collapse)
  from listing_window [OF run] f show ?thesis
    by (intro conjI)
qed

text \<open>
  C7: a \<open>since\<close> that does not parse raises nothing and filters nothing: the loop
  keeps every issue that is not a pull request, and the call returns what the call
  without \<open>since\<close> returns.  With a \<open>since\<close> that parses, a returned listing is made
  from the issues of the window that are not pull requests and were not created
  strictly before it.
\<close>

theorem since_filter:
  "(fromisoformat py (replace_Z since) = None \<longrightarrow>
      GetNewIssues_run py environ tr repository since =
        GetNewIssues_run py environ tr repository [] \<and>
      (\<forall>xs. issue_loop py since xs [] =
              Inr (map (issue_data_of py) (filter (\<lambda>i. \<not> pull_request i) xs)))) \<and>
   (\<forall>since_dt t tr'.
      since \<noteq> [] \<and> fromisoformat py (replace_Z since) = Some since_dt \<and>
      GetNewIssues_run py environ tr repository since = (Success t, tr') \<longrightarrow>
      (\<exists>r kept.
         repos tr repository = Some r \<and>
         kept = filter (\<lambda>i. \<not> pull_request i \<and> dt_less (created_at i) since_dt = Inr False)
                  (take 20 (open_issues_desc r)) \<and>
         t = (if kept = [] then S ''No new issues found.''
              else found_issues (map (issue_data_of py) kept))))"
proof (intro conjI impI allI)
  assume none: "fromisoformat py (replace_Z since) = None"
  then have loop: "issue_loop py since xs [] =
      Inr (map (issue_data_of py) (filter (\<lambda>i. \<not> pull_request i) xs))" for xs
    using issue_loop_unfiltered [of since py xs "[]"] by simp
  have loop0: "issue_loop py [] xs [] =
      Inr (map (issue_data_of py) (filter (\<lambda>i. \<not> pull_request i) xs))" for xs
    using issue_loop_unfiltered [of "[]" py xs "[]"] by simp
  have "GetNewIssues_try py repository since tr = GetNewIssues_try py repository [] tr"
    by (simp add: GetNewIssues_try_def loop loop0)
  then show "GetNewIssues_run py environ tr repository since =
        GetNewIssues_run py environ tr repository []"
    by (simp add: GetNewIssues_run_def)
  show "issue_loop py since xs [] =
      Inr (map (issue_data_of py) (filter (\<lambda>i. \<not> pull_request i) xs))" for xs
    by (rule loop)
next
  fix since_dt t tr'
  assume a: "since \<noteq> [] \<and> fromisoformat py (replace_Z since) = Some since_dt \<and>
      GetNewIssues_run py environ tr repository since = (Success t, tr')"
  then have run: "GetNewIssues_run py environ tr repository since = (Success t, tr')"
    by simp
  from run show "\<exists>r kept.
         repos tr repository = Some r \<and>
         kept = filter (\<lambda>i. \<not> pull_request i \<and> dt_less (created_at i) since_dt = Inr False)
                  (take 20 (open_issues_desc r)) \<and>
         t = (if kept = [] then S ''No new issues found.''
              else found_issues (map (issue_data_of py) kept))"
  proof (cases rule: GetNewIssues_run_Success)
    case (1 r result)
    from a 1(2) have "result = map (issue_data_of py)
        (filter (\<lambda>i. \<not> pull_request i \<and> dt_less (created_at i) since_dt = Inr False)
           (take 20 (open_issues_desc r)))"
      using issue_loop_filtered [of since py since_dt "take 20 (open_issues_desc r)" "[]" result]
      by simp
    with 1(1,3) show ?thesis
      by simp
  qed
qed

theorem since_filter_witness:
  "fromisoformat demo_py (replace_Z (S ''yesterday'')) = None \<and>
   GetNewIssues_run demo_py demo_environ listing_tracker (S ''octocat/Hello-World'') (S ''yesterday'') =
     GetNewIssues_run demo_py demo_environ listing_tracker (S ''octocat/Hello-World'') [] \<and>
   fromisoformat demo_py (replace_Z (S ''2024-01-01T00:00:00Z'')) = Some (Aware 50) \<and>
   fst (GetNewIssues_run demo_py demo_environ listing_tracker (S ''octocat/Hello-World'')
          (S ''2024-01-01T00:00:00Z'')) =
     Success (found_issues [issue_data_of demo_py demo_issue]) \<and>
   (\<exists>r. repos listing_tracker (S ''octocat/Hello-World'') = Some r \<and>
        found_issues [issue_data_of demo_py demo_issue] =
        found_issues (map (issue_data_of demo_py)
          (filter (\<lambda>i. \<not> pull_request i \<and> dt_less (created_at i) (Aware 50) = Inr False)
             (take 20 (open_issues_desc r)))))"
proof -
  let ?R = "S ''octocat/Hello-World''"
  let ?since = "S ''2024-01-01T00:00:00Z''"
  let ?run = "GetNewIssues_run demo_py demo_environ listing_tracker ?R ?since"
  note sf = since_filter [of demo_py _ demo_environ listing_tracker ?R]
  have none: "fromisoformat demo_py (replace_Z (S ''yesterday'')) = None"
    by (simp add: demo_py_def replace_Z_def S_def)
  have some: "fromisoformat demo_py (replace_Z ?since) = Some (Aware 50)"
    by (simp add: demo_py_def replace_Z_def S_def)
  have ne: "?since \<noteq> []"
    by (simp add: S_def)
  have same: "GetNewIssues_run demo_py demo_environ listing_tracker ?R (S ''yesterday'') =
     GetNewIssues_run demo_py demo_environ listing_tracker ?R []"
    using sf [of "S ''yesterday''"] none by blast
  have loop: "issue_loop demo_py ?since [demo_pull, demo_issue, old_issue] [] =
      Inr [issue_data_of demo_py demo_issue]"
    using ne some by (simp add: listing_flags)
  have f: "fst ?run = Success (found_issues [issue_data_of demo_py demo_issue])"
    unfolding GetNewIssues_run_def listing_try loop using demo_has_token by simp
  then have run: "?run = (Success (found_issues [issue_data_of demo_py demo_issue]), snd ?run)"
    by (metis prod.collapse)
  from sf [of ?since] ne some run obtain r kept where
    r: "repos listing_tracker ?R = Some r"
    and k: "kept = filter (\<lambda>i. \<not> pull_request i \<and> dt_less (created_at i) (Aware 50) = Inr False)
                  (take 20 (open_issues_desc r))"
    and t: "found_issues [issue_data_of demo_py demo_issue] =
         (if kept = [] then S ''No new issues found.''
          else found_issues (map (issue_data_of demo_py) kept))"
    by blast
  from r have "r = listing_repo"
    by (simp add: listing_repos)
  with k have "kept = [demo_issue]"
    by (simp add: listing_open listing_flags)
  with k t r have "\<exists>r. repos listing_tracker ?R = Some r \<and>
        found_issues [issue_data_of demo_py demo_issue] =
        found_issues (map (issue_data_of demo_py)
          (filter (\<lambda>i. \<not> pull_request i \<and> dt_less (created_at i) (Aware 50) = Inr False)
             (take 20 (open_issues_desc r))))"
    by auto
  with none same some f show ?thesis
    by (intro conjI)
qed

end
